theory Spec2Isabelle
  imports Main
begin

section \<open>Package metric (cmd/broker/metric/metric.go)\<close>

text \<open>
  Go strings are byte sequences; a \<^typ>\<open>string\<close> here is the list of those bytes.
  \<^verbatim>\<open>fmt.Sprintf("%s_%s", a, b)\<close> is \<open>a @ ''_'' @ b\<close>.
\<close>

definition Sprintf_s_s :: "string \<Rightarrow> string \<Rightarrow> string" where
  "Sprintf_s_s a b = a @ ''_'' @ b"

definition HttpRequestCountMetricName :: string where
  "HttpRequestCountMetricName = ''http_request_count''"

definition HttpRequestDurationMetricName :: string where
  "HttpRequestDurationMetricName = ''http_request_duration_ms''"

definition HttpRequestDurationMicroMetricName :: string where
  "HttpRequestDurationMicroMetricName = ''http_request_duration_micro''"

text \<open>
  The character class \<^verbatim>\<open>[_A-Za-z]\<close> whose complement the regular expression
  \<^verbatim>\<open>[^_A-Za-z]+\<close> of \<^verbatim>\<open>NewMetricPublisher\<close> matches. Every byte of a multi-byte
  UTF-8 rune (and every invalid byte) is at least 128, hence outside the class.
\<close>

definition inClass :: "char \<Rightarrow> bool" where
  "inClass c \<longleftrightarrow>
     c = CHR ''_''
     \<or> (65 \<le> (of_char c :: nat) \<and> (of_char c :: nat) \<le> 90)
     \<or> (97 \<le> (of_char c :: nat) \<and> (of_char c :: nat) \<le> 122)"

text \<open>
  \<^verbatim>\<open>metricNameRegex.ReplaceAllString(src, repl)\<close> for the expression
  \<^verbatim>\<open>[^_A-Za-z]+\<close>: scanning from the left, every maximal run of characters outside the
  class is one match and is replaced by \<open>repl\<close>; the other characters are copied.
\<close>

function ReplaceAllString :: "string \<Rightarrow> string \<Rightarrow> string" where
  "ReplaceAllString [] repl = []"
| "ReplaceAllString (c # cs) repl =
     (if inClass c then c # ReplaceAllString cs repl
      else repl @ ReplaceAllString (dropWhile (\<lambda>d. \<not> inClass d) cs) repl)"
  by pat_completeness auto
termination
  by (relation "measure (\<lambda>(s, repl). length s)")
     (auto simp: length_dropWhile_le less_Suc_eq_le)

text \<open>
  A metric held in \<^verbatim>\<open>metricMap map[string]any\<close>: a Prometheus counter with its count, or a
  histogram with its bucket boundaries and the values observed so far, oldest first.
  \<^verbatim>\<open>GetHistogram\<close> takes a \<^verbatim>\<open>float64\<close>; every call site passes \<^verbatim>\<open>float64(d)\<close> for an
  integer duration \<open>d\<close>, and the model carries that integer.
\<close>

datatype metric = Counter nat | Histogram "int list" "int list"

datatype panic =
    TypeAssertionFailed string
  | NilPointerDereference
  | ExplicitPanic string
  | AlreadyRegistered string

text \<open>Sequencing: a panic ends the computation, nothing after it runs.\<close>

fun andThen :: "panic + 'a \<Rightarrow> ('a \<Rightarrow> panic + 'b) \<Rightarrow> panic + 'b" where
  "andThen (Inl e) f = Inl e"
| "andThen (Inr v) f = f v"

record MetricPublisher =
  metricMap :: "string \<rightharpoonup> metric"

text \<open>
  The part of \<^verbatim>\<open>fiber.Ctx\<close> a request handler reads and writes: the request's method,
  path, client address and headers, the context slot \<^verbatim>\<open>Locals\<close>, and the response under
  construction.
\<close>

datatype local_value = LString string | LTracer | LSpan string | LLogger "(string \<times> string) list"

text \<open>
  Modelled from the spec: the response structs \<^verbatim>\<open>model.ErrorResponse\<close> and
  \<^verbatim>\<open>model.HealthCheckResponse\<close> belong to package \<^verbatim>\<open>model\<close>, which is not among the
  sources. Section 6 gives both JSON bodies: a time stamp with a message for a rejection, a
  time stamp with a status for the health check. The other bodies are those written by
  collaborators outside the repository.
\<close>

datatype body =
    ErrorResponse int string
  | HealthCheckResponse int string
  | MetricsExposition
  | PprofPage
  | StatusMessage int

record Ctx =
  Method :: string
  Path :: string
  IP :: string
  reqHeaders :: "string \<rightharpoonup> string"
  Locals :: "string \<rightharpoonup> local_value"
  respHeaders :: "string \<rightharpoonup> string"
  respBody :: "body option"
  respStatus :: int

definition NewMetricPublisher :: MetricPublisher where
  "NewMetricPublisher = \<lparr>metricMap = Map.empty\<rparr>"

definition GetMetricName :: "Ctx \<Rightarrow> string" where
  "GetMetricName ctx = ReplaceAllString (Sprintf_s_s (Method ctx) (Path ctx)) ''''"

definition PublishCounter :: "string \<Rightarrow> Ctx \<Rightarrow> MetricPublisher \<Rightarrow> panic + MetricPublisher" where
  "PublishCounter prefix ctx mc =
     (let key = Sprintf_s_s prefix (GetMetricName ctx) in
      case metricMap mc key of
        None \<Rightarrow> Inr mc
      | Some (Counter n) \<Rightarrow> Inr (mc\<lparr>metricMap := (metricMap mc)(key \<mapsto> Counter (Suc n))\<rparr>)
      | Some (Histogram bs vs) \<Rightarrow> Inl (TypeAssertionFailed ''prometheus.Counter''))"

definition GetHistogram :: "string \<Rightarrow> Ctx \<Rightarrow> int \<Rightarrow> MetricPublisher \<Rightarrow> panic + MetricPublisher" where
  "GetHistogram prefix ctx v mc =
     (let key = Sprintf_s_s prefix (GetMetricName ctx) in
      case metricMap mc key of
        None \<Rightarrow> Inr mc
      | Some (Histogram bs vs) \<Rightarrow>
          Inr (mc\<lparr>metricMap := (metricMap mc)(key \<mapsto> Histogram bs (vs @ [v]))\<rparr>)
      | Some (Counter n) \<Rightarrow> Inl (TypeAssertionFailed ''prometheus.Histogram''))"

text \<open>
  \<^verbatim>\<open>promauto.NewHistogram\<close> and \<^verbatim>\<open>promauto.NewCounter\<close> create a fresh metric and register
  it under its name with the default registry of Prometheus; they panic when that name is
  registered already. Every metric of the publisher is registered by one of the two
  functions below and stored under its name, so the names the publisher has registered are
  the keys of \<^verbatim>\<open>metricMap\<close>, and a second registration of a key is that panic. The names
  registered by other code (the counter of line 69, the collectors of the library) and the
  constructors' other panics (an ill-formed name, unsorted buckets) are outside the model;
  neither can meet a name or the buckets that \<^verbatim>\<open>Initialize\<close> passes.
\<close>

definition InsertHistogram :: "string \<Rightarrow> string \<Rightarrow> int list \<Rightarrow> MetricPublisher \<Rightarrow> panic + MetricPublisher" where
  "InsertHistogram metricName metricDescription buckets mc =
     (case metricMap mc metricName of
        Some m \<Rightarrow> Inl (AlreadyRegistered metricName)
      | None \<Rightarrow> Inr (mc\<lparr>metricMap := (metricMap mc)(metricName \<mapsto> Histogram buckets [])\<rparr>))"

definition InsertCounter :: "string \<Rightarrow> string \<Rightarrow> MetricPublisher \<Rightarrow> panic + MetricPublisher" where
  "InsertCounter metricName metricDescription mc =
     (case metricMap mc metricName of
        Some m \<Rightarrow> Inl (AlreadyRegistered metricName)
      | None \<Rightarrow> Inr (mc\<lparr>metricMap := (metricMap mc)(metricName \<mapsto> Counter 0)\<rparr>))"

text \<open>
  \<^verbatim>\<open>Initialize\<close> loops over \<^verbatim>\<open>app.GetRoutes()\<close>; the route table is the list of
  (method, path) pairs it returns, in order. \<open>InitializeRoute\<close> is the body of the loop.
  A panic of a registration ends the loop and, with it, the start of the process.
\<close>

definition latencyBuckets :: "int list" where
  "latencyBuckets = [1, 2, 4, 8, 10, 25, 50, 100, 250, 500, 1000]"

definition InitializeRoute :: "string \<times> string \<Rightarrow> MetricPublisher \<Rightarrow> panic + MetricPublisher" where
  "InitializeRoute route mc =
     (let key = fst route @ ''_'' @ snd route;
          postfix = ReplaceAllString key []
      in andThen (InsertCounter (Sprintf_s_s HttpRequestCountMetricName postfix)
                    (''Number of HTTP requests for '' @ key) mc) (\<lambda>mc1.
         InsertHistogram (Sprintf_s_s HttpRequestDurationMetricName postfix)
           (''Duration of HTTP requests for '' @ key) latencyBuckets mc1))"

fun Initialize :: "(string \<times> string) list \<Rightarrow> MetricPublisher \<Rightarrow> panic + MetricPublisher" where
  "Initialize [] mc = Inr mc"
| "Initialize (route # routes) mc = andThen (InitializeRoute route mc) (Initialize routes)"

section \<open>The identity cache (simplelru.LRU of hashicorp/golang-lru)\<close>

text \<open>
  Modelled from the spec: the package \<^verbatim>\<open>simplelru\<close> that \<^verbatim>\<open>main\<close> imports is not among
  the sources. Section 4.3 of the specification describes the cache: capacity-bounded, a hit
  promotes the entry to most-recently-used, a miss inserts and, when the cache is then over
  capacity, evicts the least-recently-used entry. \<open>evictList\<close> holds the (key, value)
  entries, most recently used first. \<^verbatim>\<open>Contains\<close> looks a key up without touching the
  order, \<^verbatim>\<open>Get\<close> promotes on a hit, \<^verbatim>\<open>Add\<close> inserts and reports an eviction. That the
  constructor returns an error, and no cache, for a size that is not positive is the
  documented behaviour of the library.
\<close>

record LRU =
  sizeLRU :: int
  evictList :: "(string \<times> string) list"

definition NewLRU :: "int \<Rightarrow> string + LRU" where
  "NewLRU n =
     (if n \<le> 0 then Inl ''must provide a positive size''
      else Inr \<lparr>sizeLRU = n, evictList = []\<rparr>)"

definition removeKey :: "string \<Rightarrow> (string \<times> string) list \<Rightarrow> (string \<times> string) list" where
  "removeKey k es = filter (\<lambda>e. fst e \<noteq> k) es"

definition Contains :: "LRU \<Rightarrow> string \<Rightarrow> bool" where
  "Contains c k \<longleftrightarrow> map_of (evictList c) k \<noteq> None"

definition Get :: "LRU \<Rightarrow> string \<Rightarrow> (string \<times> bool) \<times> LRU" where
  "Get c k =
     (case map_of (evictList c) k of
        Some v \<Rightarrow> ((v, True), c\<lparr>evictList := (k, v) # removeKey k (evictList c)\<rparr>)
      | None \<Rightarrow> (([], False), c))"

definition Add :: "LRU \<Rightarrow> string \<Rightarrow> string \<Rightarrow> bool \<times> LRU" where
  "Add c k v =
     (case map_of (evictList c) k of
        Some old \<Rightarrow> (False, c\<lparr>evictList := (k, v) # removeKey k (evictList c)\<rparr>)
      | None \<Rightarrow>
          (let es = (k, v) # evictList c;
               evict = (int (length es) > sizeLRU c)
           in (evict, c\<lparr>evictList := (if evict then butlast es else es)\<rparr>)))"

text \<open>
  Lines 149 to 156 of \<^verbatim>\<open>main\<close>: the cache part of the identity middleware.
  \<open>userCache\<close> is the pointer \<^verbatim>\<open>NewLRU\<close> returned (\<open>None\<close> is \<^verbatim>\<open>nil\<close>), \<open>fresh\<close> is
  the string \<^verbatim>\<open>uuid.New().String()\<close> yields when it is called.
\<close>

definition resolveUser :: "LRU option \<Rightarrow> string \<Rightarrow> string \<Rightarrow> panic + (string \<times> LRU option)" where
  "resolveUser userCache ip fresh =
     (case userCache of
        None \<Rightarrow> Inl NilPointerDereference
      | Some cache \<Rightarrow>
          (if Contains cache ip then
             (case Get cache ip of ((userId, ok), cache') \<Rightarrow> Inr (userId, Some cache'))
           else
             (case Add cache ip fresh of (evicted, cache') \<Rightarrow> Inr (fresh, Some cache'))))"

section \<open>Reading CACHE_SIZE (lines 137 to 146 of main)\<close>

text \<open>
  \<^verbatim>\<open>strconv.ParseInt(s, 10, 64)\<close> of the Go standard library: an optional sign, then
  decimal digits read left to right into an unsigned 64-bit accumulator. A character that is
  no digit, or no digit at all, is a syntax error with value 0; a value out of range is a
  range error with the nearest bound as value.
\<close>

datatype NumError = ErrSyntax | ErrRange

definition isDigit :: "char \<Rightarrow> bool" where
  "isDigit c \<longleftrightarrow> 48 \<le> (of_char c :: nat) \<and> (of_char c :: nat) \<le> 57"

definition maxUint64 :: nat where
  "maxUint64 = 18446744073709551615"

fun parseDigits :: "string \<Rightarrow> nat \<Rightarrow> nat \<times> NumError option" where
  "parseDigits [] n = (n, None)"
| "parseDigits (c # cs) n =
     (if \<not> isDigit c then (0, Some ErrSyntax)
      else if n \<ge> maxUint64 div 10 + 1 then (maxUint64, Some ErrRange)
      else if n * 10 + (of_char c - 48) > maxUint64 then (maxUint64, Some ErrRange)
      else parseDigits cs (n * 10 + (of_char c - 48)))"

definition ParseUint :: "string \<Rightarrow> nat \<times> NumError option" where
  "ParseUint s = (if s = [] then (0, Some ErrSyntax) else parseDigits s 0)"

definition ParseInt :: "string \<Rightarrow> int \<times> NumError option" where
  "ParseInt s =
     (if s = [] then (0, Some ErrSyntax)
      else
        (let neg = (hd s = CHR ''-'');
             s1 = (if hd s = CHR ''+'' \<or> hd s = CHR ''-'' then tl s else s)
         in case ParseUint s1 of (un, err) \<Rightarrow>
              if err = Some ErrSyntax then (0, err)
              else if \<not> neg \<and> un \<ge> 9223372036854775808 then (9223372036854775807, Some ErrRange)
              else if neg \<and> un > 9223372036854775808 then (- 9223372036854775808, Some ErrRange)
              else (if neg then - int un else int un, None)))"

text \<open>
  \<open>cacheSizeOf\<close> is the value of \<^verbatim>\<open>cacheSize\<close> at line 146 for a given value of the
  environment variable (the error of \<^verbatim>\<open>ParseInt\<close> is discarded; \<^verbatim>\<open>int\<close> is 64 bits wide).
  \<open>newUserCache\<close> is \<^verbatim>\<open>userCache\<close> after line 146, where the error of \<^verbatim>\<open>NewLRU\<close> is
  discarded as well: on an error the pointer is \<^verbatim>\<open>nil\<close>.
\<close>

definition cacheSizeOf :: "string \<Rightarrow> int" where
  "cacheSizeOf cacheSizeStr =
     (if cacheSizeStr \<noteq> [] then fst (ParseInt cacheSizeStr) else 100)"

definition newUserCache :: "string \<Rightarrow> LRU option" where
  "newUserCache cacheSizeStr =
     (case NewLRU (cacheSizeOf cacheSizeStr) of Inl err \<Rightarrow> None | Inr cache \<Rightarrow> Some cache)"

section \<open>The middleware chain of main\<close>

text \<open>
  The collaborators outside the repository answer once per request; their answers are the
  fields of \<open>External\<close>: whether the router matches the request against the routes
  \<^verbatim>\<open>GET /metrics\<close> and \<^verbatim>\<open>GET /health\<close>, whether the pprof middleware serves the path itself,
  the decision of the sliding-window limiter, the identifiers the two generators would return,
  and the clock readings.
\<close>

record External =
  metricsRouteMatches :: bool
  pprofServes :: bool
  limiterAllows :: bool
  healthRouteMatches :: bool
  generatedRequestId :: string
  generatedUserId :: string
  rejectTime :: int
  healthTime :: int
  elapsedMillis :: int
  elapsedMicros :: int

text \<open>
  What the process sends to the tracing and logging sinks, in order. A log record carries its
  level, its message and the fields of the request-scoped logger; the time values added to
  single records are left out.
\<close>

datatype event =
    SpanStart string
  | SpanFinish string
  | SpanTag string string string
  | LogRecord string string "(string \<times> string) list"

record Process =
  userCache :: "LRU option"
  metricPublisher :: MetricPublisher
  opsProcessed :: nat
  events :: "event list"

datatype fiber_error = ErrNotFound

type_synonym handler = "External \<Rightarrow> Ctx \<times> Process \<Rightarrow> panic + (fiber_error option \<times> Ctx \<times> Process)"

definition emit :: "event \<Rightarrow> Process \<Rightarrow> Process" where
  "emit e p = p\<lparr>events := events p @ [e]\<rparr>"

definition setLocal :: "string \<Rightarrow> local_value \<Rightarrow> Ctx \<Rightarrow> Ctx" where
  "setLocal k v c = c\<lparr>Locals := (Locals c)(k \<mapsto> v)\<rparr>"

text \<open>request.GetTracer and request.GetLogger: a failed type assertion panics.\<close>

definition GetTracer :: "Ctx \<Rightarrow> panic + unit" where
  "GetTracer ctx =
     (case Locals ctx ''tracer'' of
        Some LTracer \<Rightarrow> Inr ()
      | _ \<Rightarrow> Inl (TypeAssertionFailed ''*zipkin.Tracer''))"

definition GetLogger :: "Ctx \<Rightarrow> panic + (string \<times> string) list" where
  "GetLogger ctx =
     (case Locals ctx ''logger'' of
        Some (LLogger flds) \<Rightarrow> Inr flds
      | _ \<Rightarrow> Inl (TypeAssertionFailed ''*zap.Logger''))"

definition localString :: "Ctx \<Rightarrow> string \<Rightarrow> panic + string" where
  "localString ctx k =
     (case Locals ctx k of
        Some (LString s) \<Rightarrow> Inr s
      | _ \<Rightarrow> Inl (TypeAssertionFailed ''string''))"

text \<open>
  \<^verbatim>\<open>c.JSON\<close> stores the body and the content type. \<^verbatim>\<open>c.SendStatus\<close> sets the status
  code and writes the status text only into an empty body.
\<close>

definition JSON :: "body \<Rightarrow> Ctx \<Rightarrow> Ctx" where
  "JSON b c = c\<lparr>respHeaders := (respHeaders c)(''Content-Type'' \<mapsto> ''application/json''),
               respBody := Some b\<rparr>"

definition SendStatus :: "int \<Rightarrow> Ctx \<Rightarrow> Ctx" where
  "SendStatus status c =
     (let c1 = c\<lparr>respStatus := status\<rparr>
      in if respBody c1 = None then c1\<lparr>respBody := Some (StatusMessage status)\<rparr> else c1)"

text \<open>\<^verbatim>\<open>strconv.FormatInt(i, 10)\<close>.\<close>

fun decimal :: "nat \<Rightarrow> string" where
  "decimal n =
     (if n < 10 then [''0123456789'' ! n]
      else decimal (n div 10) @ [''0123456789'' ! (n mod 10)])"

declare decimal.simps [simp del]

definition FormatInt :: "int \<Rightarrow> string" where
  "FormatInt i = (if i < 0 then CHR ''-'' # decimal (nat (- i)) else decimal (nat i))"

text \<open>Lines 64 to 67: the route \<^verbatim>\<open>GET /metrics\<close>, registered before every middleware.\<close>

definition metricsRoute :: handler where
  "metricsRoute x s = (case s of (c, p) \<Rightarrow> Inr (None, c\<lparr>respBody := Some MetricsExposition\<rparr>, p))"

text \<open>Line 77: pprof serves the paths under its prefix itself and passes every other on.\<close>

definition pprofMiddleware :: "handler \<Rightarrow> handler" where
  "pprofMiddleware nxt x s =
     (case s of (c, p) \<Rightarrow>
        if pprofServes x then Inr (None, c\<lparr>respBody := Some PprofPage\<rparr>, p) else nxt x s)"

text \<open>
  Lines 79 to 89: the limiter. When the limit is reached it returns what \<^verbatim>\<open>LimitReached\<close>
  returns, without calling the next handler. The rate-limit headers the limiter writes itself
  are not part of the model.
\<close>

definition tooManyRequests :: string where
  "tooManyRequests = ''Too many requests. Maybe you should slow down? ''
                     @ [char_of (240::nat), char_of (159::nat), char_of (164::nat), char_of (147::nat)]"

definition LimitReached :: "External \<Rightarrow> Ctx \<Rightarrow> fiber_error option \<times> Ctx" where
  "LimitReached x c = (None, JSON (ErrorResponse (rejectTime x) tooManyRequests) c)"

definition limiterMiddleware :: "handler \<Rightarrow> handler" where
  "limiterMiddleware nxt x s =
     (case s of (c, p) \<Rightarrow>
        if limiterAllows x then nxt x s
        else (case LimitReached x c of (err, c') \<Rightarrow> Inr (err, c', p)))"

text \<open>Lines 117 to 126: the root span, named after the path.\<close>

definition tracerMiddleware :: "handler \<Rightarrow> handler" where
  "tracerMiddleware nxt x s =
     (case s of (c, p) \<Rightarrow>
        let p1 = emit (SpanStart (Path c)) p;
            c1 = setLocal ''tracer'' LTracer c;
            c2 = setLocal ''parentSpan'' (LSpan (Path c)) c1
        in andThen (nxt x (c2, p1)) (\<lambda>(err, c3, p3).
             Inr (None, c3, emit (SpanFinish (Path c)) p3)))"

text \<open>
  Modelled from the spec: the middleware \<^verbatim>\<open>requestid.New()\<close> of line 128 is not among the
  sources. By section 6 the identifier is the one propagated with the request or else a
  generated one, and it is attached to the response as the request-id header; the logging
  middleware reads it from the context slot \<^verbatim>\<open>requestid\<close>.
\<close>

definition requestIdOf :: "External \<Rightarrow> Ctx \<Rightarrow> string" where
  "requestIdOf x c =
     (case reqHeaders c ''X-Request-ID'' of
        None \<Rightarrow> generatedRequestId x
      | Some v \<Rightarrow> if v = [] then generatedRequestId x else v)"

definition requestidMiddleware :: "handler \<Rightarrow> handler" where
  "requestidMiddleware nxt x s =
     (case s of (c, p) \<Rightarrow>
        let rid = requestIdOf x c;
            c1 = c\<lparr>respHeaders := (respHeaders c)(''X-Request-ID'' \<mapsto> rid)\<rparr>;
            c2 = setLocal ''requestid'' (LString rid) c1
        in nxt x (c2, p))"

text \<open>Lines 147 to 160: the identity middleware.\<close>

definition identityMiddleware :: "handler \<Rightarrow> handler" where
  "identityMiddleware nxt x s =
     (case s of (c, p) \<Rightarrow>
        andThen (GetTracer c) (\<lambda>u.
        let p1 = emit (SpanStart ''resolveUser'') p in
        andThen (resolveUser (userCache p1) (IP c) (generatedUserId x)) (\<lambda>(userId, cache').
        let p2 = p1\<lparr>userCache := cache'\<rparr>;
            c1 = setLocal ''userId'' (LString userId) c;
            p3 = emit (SpanFinish ''resolveUser'') p2
        in nxt x (c1, p3))))"

text \<open>
  Lines 209 to 211. \<^verbatim>\<open>main\<close> calls the histogram method \<^verbatim>\<open>PublishHistogram\<close>; the method of
  \<^verbatim>\<open>MetricPublisher\<close> with these parameters is declared in metric.go as \<^verbatim>\<open>GetHistogram\<close>.
\<close>

definition publishRequestMetrics :: "External \<Rightarrow> Ctx \<Rightarrow> MetricPublisher \<Rightarrow> panic + MetricPublisher" where
  "publishRequestMetrics x c mp =
     andThen (PublishCounter HttpRequestCountMetricName c mp) (\<lambda>mp1.
     andThen (GetHistogram HttpRequestDurationMetricName c (elapsedMillis x) mp1) (\<lambda>mp2.
     GetHistogram HttpRequestDurationMicroMetricName c (elapsedMicros x) mp2))"

text \<open>Lines 163 to 219: the logging and metrics middleware.\<close>

definition loggingMiddleware :: "handler \<Rightarrow> handler" where
  "loggingMiddleware nxt x s =
     (case s of (c, p) \<Rightarrow>
        andThen (GetTracer c) (\<lambda>u.
        let p1 = emit (SpanStart ''createLogger'') p in
        andThen (localString c ''requestid'') (\<lambda>rid.
        andThen (localString c ''userId'') (\<lambda>uid.
        let flds = [(''RequestID'', rid), (''method'', Method c), (''path'', Path c),
                    (''scope'', ''client-request''), (''userId'', uid)];
            c1 = setLocal ''logger'' (LLogger flds) c;
            p2 = emit (SpanFinish ''createLogger'') p1
        in
        andThen (GetTracer c1) (\<lambda>u.
        let p3 = emit (SpanStart ''infoLog'') p2;
            p4 = emit (LogRecord ''info'' ''Request Started'' flds) p3;
            p5 = emit (SpanFinish ''infoLog'') p4
        in
        andThen (nxt x (c1, p5)) (\<lambda>(err, c2, p6).
        let p7 = p6\<lparr>opsProcessed := Suc (opsProcessed p6)\<rparr> in
        andThen (publishRequestMetrics x c2 (metricPublisher p7)) (\<lambda>mp.
        Inr (None, c2,
             emit (LogRecord ''info'' ''Request Completed'' flds)
               (p7\<lparr>metricPublisher := mp\<rparr>)))))))))"

text \<open>Lines 221 to 231: the tags of the root span.\<close>

definition spanLocal :: "Ctx \<Rightarrow> string \<Rightarrow> panic + string" where
  "spanLocal ctx k =
     (case Locals ctx k of
        Some (LSpan span) \<Rightarrow> Inr span
      | _ \<Rightarrow> Inl (TypeAssertionFailed ''zipkin.Span''))"

definition tagsMiddleware :: "handler \<Rightarrow> handler" where
  "tagsMiddleware nxt x s =
     (case s of (c, p) \<Rightarrow>
        andThen (spanLocal c ''parentSpan'') (\<lambda>span.
        andThen (localString c ''userId'') (\<lambda>uid.
        andThen (localString c ''requestid'') (\<lambda>rid.
        let p1 = emit (SpanTag span ''userId'' uid) p;
            p2 = emit (SpanTag span ''requestId'' rid) p1;
            p3 = emit (SpanTag span ''method'' (Method c)) p2;
            p4 = emit (SpanTag span ''path'' (Path c)) p3
        in
        andThen (nxt x (c, p4)) (\<lambda>(err, c1, p5).
        Inr (None, c1, emit (SpanTag span ''status'' (FormatInt (respStatus c1))) p5))))))"

text \<open>Lines 235 to 256: the business handler of \<^verbatim>\<open>GET /health\<close>.\<close>

definition healthHandler :: handler where
  "healthHandler x s =
     (case s of (c, p) \<Rightarrow>
        andThen (GetTracer c) (\<lambda>u.
        let p1 = emit (SpanStart ''health'') p;
            p2 = emit (SpanStart ''get-logger'') p1
        in
        andThen (GetLogger c) (\<lambda>flds.
        let p3 = emit (LogRecord ''debug'' ''Creating health check response'' flds) p2;
            p4 = emit (SpanFinish ''get-logger'') p3;
            p5 = emit (SpanStart ''marshal-json'') p4;
            c1 = JSON (HealthCheckResponse (healthTime x) ''OK'') c;
            p6 = emit (SpanFinish ''marshal-json'') p5;
            c2 = SendStatus 200 c1;
            p7 = emit (SpanFinish ''health'') p6
        in Inr (None, c2, p7))))"

text \<open>
  The end of the handler stack: the route \<^verbatim>\<open>GET /health\<close> when the router matches it,
  otherwise the router's not-found error.
\<close>

definition routeStack :: handler where
  "routeStack x s = (if healthRouteMatches x then healthHandler x s else Inr (Some ErrNotFound, s))"

text \<open>
  One request through the application: handlers run in the order of their registration, each
  middleware reaching the next through \<^verbatim>\<open>c.Next()\<close>. \<open>middlewareChain h\<close> is the chain
  of the handlers registered with \<^verbatim>\<open>app.Use\<close>, in front of the handler \<open>h\<close>.
\<close>

definition middlewareChain :: "handler \<Rightarrow> handler" where
  "middlewareChain h =
     pprofMiddleware (limiterMiddleware (tracerMiddleware (requestidMiddleware
       (identityMiddleware (loggingMiddleware (tagsMiddleware h))))))"

definition serve :: handler where
  "serve x s =
     (if metricsRouteMatches x then metricsRoute x s else middlewareChain routeStack x s)"

text \<open>
  The start of the process, as far as the state of the chain goes: the identity cache of
  line 146, the publisher of line 46 initialized at line 259 (where a panic ends the start),
  the counter of line 69. Then a request as the server hands it over, and the first request
  served by a process after its start.
\<close>

definition startProcess :: "string \<Rightarrow> (string \<times> string) list \<Rightarrow> panic + Process" where
  "startProcess cacheSizeStr routes =
     andThen (Initialize routes NewMetricPublisher) (\<lambda>mp.
     Inr \<lparr>userCache = newUserCache cacheSizeStr,
          metricPublisher = mp,
          opsProcessed = 0,
          events = []\<rparr>)"

definition newCtx :: "string \<Rightarrow> string \<Rightarrow> string \<Rightarrow> (string \<rightharpoonup> string) \<Rightarrow> Ctx" where
  "newCtx m path ip hdrs =
     \<lparr>Method = m, Path = path, IP = ip, reqHeaders = hdrs, Locals = Map.empty,
      respHeaders = Map.empty, respBody = None, respStatus = 200\<rparr>"

definition firstRequest :: "panic + Process \<Rightarrow> External \<Rightarrow> Ctx \<Rightarrow> panic + (fiber_error option \<times> Ctx \<times> Process)" where
  "firstRequest started x c = andThen started (\<lambda>p. serve x (c, p))"

text \<open>
  Observers for stating results: the value of a response header when the request ends with
  a response, and the identities a sequence of requests gets from the cache part of the
  identity middleware, each request given by its client address and the identifier the
  generator would return for it.
\<close>

definition responseHeader :: "string \<Rightarrow> panic + (fiber_error option \<times> Ctx \<times> Process) \<Rightarrow> string option option" where
  "responseHeader k r = (case r of Inl e \<Rightarrow> None | Inr (err, c, p) \<Rightarrow> Some (respHeaders c k))"

fun resolveSeq :: "LRU option \<Rightarrow> (string \<times> string) list \<Rightarrow> panic + (string list \<times> LRU option)" where
  "resolveSeq cache [] = Inr ([], cache)"
| "resolveSeq cache ((ip, fresh) # reqs) =
     andThen (resolveUser cache ip fresh) (\<lambda>(userId, cache').
     andThen (resolveSeq cache' reqs) (\<lambda>(ids, cache'').
     Inr (userId # ids, cache'')))"

section \<open>Properties of the metric registry\<close>

lemma filter_dropWhile_outside:
  "filter P (dropWhile (\<lambda>d. \<not> P d) cs) = filter P cs"
  by (induction cs) auto

lemma ReplaceAllString_filter: "ReplaceAllString s [] = filter inClass s"
  by (induction s "[] :: string" rule: ReplaceAllString.induct)
     (auto simp: filter_dropWhile_outside)

lemma GetMetricName_filter:
  "GetMetricName ctx = filter inClass (Method ctx @ ''_'' @ Path ctx)"
  by (simp add: GetMetricName_def Sprintf_s_s_def ReplaceAllString_filter)

lemma inClass_underscore: "inClass CHR ''_''"
  by (simp add: inClass_def)

lemma prefixes_inClass:
  "list_all inClass HttpRequestCountMetricName"
  "list_all inClass HttpRequestDurationMetricName"
  "list_all inClass HttpRequestDurationMicroMetricName"
  by (simp_all add: HttpRequestCountMetricName_def HttpRequestDurationMetricName_def
        HttpRequestDurationMicroMetricName_def inClass_def)

lemma andThen_Inr:
  "andThen m f = Inr r \<longleftrightarrow> (\<exists>v. m = Inr v \<and> f v = Inr r)"
  by (cases m) auto

lemma count_key_not_duration_key:
  "Sprintf_s_s HttpRequestCountMetricName a \<noteq> Sprintf_s_s HttpRequestDurationMetricName b"
  "Sprintf_s_s HttpRequestDurationMetricName b \<noteq> Sprintf_s_s HttpRequestCountMetricName a"
  by (simp_all add: Sprintf_s_s_def HttpRequestCountMetricName_def HttpRequestDurationMetricName_def)

lemma key_same_prefix: "Sprintf_s_s p a = Sprintf_s_s p b \<longleftrightarrow> a = b"
  by (simp add: Sprintf_s_s_def)

lemma distinct_map_head: "distinct (map f (r # rs)) \<Longrightarrow> q \<in> set rs \<Longrightarrow> f q \<noteq> f r"
  by (fastforce simp: image_iff)

lemma InitializeRoute_Inr:
  "InitializeRoute r mc = Inr mc' \<longleftrightarrow>
     metricMap mc (Sprintf_s_s HttpRequestCountMetricName (ReplaceAllString (fst r @ ''_'' @ snd r) [])) = None
   \<and> metricMap mc (Sprintf_s_s HttpRequestDurationMetricName (ReplaceAllString (fst r @ ''_'' @ snd r) [])) = None
   \<and> mc' = mc\<lparr>metricMap := (metricMap mc)
        (Sprintf_s_s HttpRequestCountMetricName (ReplaceAllString (fst r @ ''_'' @ snd r) [])
           \<mapsto> Counter 0,
         Sprintf_s_s HttpRequestDurationMetricName (ReplaceAllString (fst r @ ''_'' @ snd r) [])
           \<mapsto> Histogram latencyBuckets [])\<rparr>"
  by (auto simp: InitializeRoute_def InsertCounter_def InsertHistogram_def andThen_Inr Let_def
           count_key_not_duration_key split: option.splits)

lemma dom_InitializeRoute:
  "InitializeRoute r mc = Inr mc' \<Longrightarrow>
   dom (metricMap mc') =
     dom (metricMap mc) \<union>
     {Sprintf_s_s HttpRequestCountMetricName (ReplaceAllString (fst r @ ''_'' @ snd r) []),
      Sprintf_s_s HttpRequestDurationMetricName (ReplaceAllString (fst r @ ''_'' @ snd r) [])}"
  by (auto simp: InitializeRoute_Inr)

lemma dom_Initialize:
  "Initialize routes mc = Inr mc' \<Longrightarrow>
   dom (metricMap mc') =
     dom (metricMap mc) \<union>
     (\<Union>r \<in> set routes.
        {Sprintf_s_s HttpRequestCountMetricName (ReplaceAllString (fst r @ ''_'' @ snd r) []),
         Sprintf_s_s HttpRequestDurationMetricName (ReplaceAllString (fst r @ ''_'' @ snd r) [])})"
proof (induction routes arbitrary: mc)
  case Nil
  then show ?case by simp
next
  case (Cons r routes)
  from Cons.prems obtain mc1 where first: "InitializeRoute r mc = Inr mc1"
    and rest: "Initialize routes mc1 = Inr mc'"
    by (auto simp: andThen_Inr)
  from Cons.IH [OF rest] dom_InitializeRoute [OF first] show ?case by auto
qed

text \<open>
  The loop returns when no two routes of the table normalize to one key and none of their
  keys is registered before.
\<close>

lemma Initialize_returns:
  assumes "distinct (map (\<lambda>r. ReplaceAllString (fst r @ ''_'' @ snd r) []) routes)"
    and "\<forall>r \<in> set routes.
           metricMap mc (Sprintf_s_s HttpRequestCountMetricName
                           (ReplaceAllString (fst r @ ''_'' @ snd r) [])) = None
         \<and> metricMap mc (Sprintf_s_s HttpRequestDurationMetricName
                           (ReplaceAllString (fst r @ ''_'' @ snd r) [])) = None"
  shows "\<exists>mc'. Initialize routes mc = Inr mc'"
  using assms
proof (induction routes arbitrary: mc)
  case Nil
  then show ?case by simp
next
  case (Cons r routes)
  let ?pf = "\<lambda>r. ReplaceAllString (fst r @ ''_'' @ snd r) []"
  let ?mc1 = "mc\<lparr>metricMap := (metricMap mc)
        (Sprintf_s_s HttpRequestCountMetricName (?pf r) \<mapsto> Counter 0,
         Sprintf_s_s HttpRequestDurationMetricName (?pf r) \<mapsto> Histogram latencyBuckets [])\<rparr>"
  from Cons.prems(2) have first: "InitializeRoute r mc = Inr ?mc1"
    by (simp add: InitializeRoute_Inr)
  have d: "distinct (map ?pf routes)" using Cons.prems(1) by simp
  have fresh: "\<forall>q \<in> set routes.
           metricMap ?mc1 (Sprintf_s_s HttpRequestCountMetricName (?pf q)) = None
         \<and> metricMap ?mc1 (Sprintf_s_s HttpRequestDurationMetricName (?pf q)) = None"
  proof
    fix q assume q: "q \<in> set routes"
    from Cons.prems(1) q have ne: "?pf q \<noteq> ?pf r"
      by (rule distinct_map_head)
    from Cons.prems(2)
    have "\<forall>q \<in> set routes.
            metricMap mc (Sprintf_s_s HttpRequestCountMetricName (?pf q)) = None
          \<and> metricMap mc (Sprintf_s_s HttpRequestDurationMetricName (?pf q)) = None"
      by simp
    from bspec [OF this q]
    have old: "metricMap mc (Sprintf_s_s HttpRequestCountMetricName (?pf q)) = None
         \<and> metricMap mc (Sprintf_s_s HttpRequestDurationMetricName (?pf q)) = None" .
    from ne old
    show "metricMap ?mc1 (Sprintf_s_s HttpRequestCountMetricName (?pf q)) = None
        \<and> metricMap ?mc1 (Sprintf_s_s HttpRequestDurationMetricName (?pf q)) = None"
      by (simp add: key_same_prefix count_key_not_duration_key)
  qed
  from Cons.IH [OF d fresh] first show ?case by simp
qed

text \<open>
  The only panic of the loop is that of a registration, and the loop returns only when no
  two routes of the table normalize to one key.
\<close>

lemma InitializeRoute_panics:
  "InitializeRoute r mc = Inl e \<Longrightarrow> \<exists>name. e = AlreadyRegistered name"
  by (auto simp: InitializeRoute_def InsertCounter_def InsertHistogram_def Let_def
           split: option.splits)

lemma Initialize_panics:
  "Initialize routes mc = Inl e \<Longrightarrow> \<exists>name. e = AlreadyRegistered name"
proof (induction routes arbitrary: mc)
  case Nil
  then show ?case by simp
next
  case (Cons r routes)
  show ?case
  proof (cases "InitializeRoute r mc")
    case (Inl e1)
    with Cons.prems have "e = e1" by simp
    with InitializeRoute_panics [OF Inl] show ?thesis by simp
  next
    case (Inr mc1)
    with Cons.prems have "Initialize routes mc1 = Inl e" by simp
    then show ?thesis by (rule Cons.IH)
  qed
qed

lemma Initialize_Inr_distinct:
  "Initialize routes mc = Inr mc' \<Longrightarrow>
   distinct (map (\<lambda>r. ReplaceAllString (fst r @ ''_'' @ snd r) []) routes)
   \<and> (\<forall>r \<in> set routes.
         metricMap mc (Sprintf_s_s HttpRequestCountMetricName
                         (ReplaceAllString (fst r @ ''_'' @ snd r) [])) = None)"
proof (induction routes arbitrary: mc)
  case Nil
  then show ?case by simp
next
  case (Cons r routes)
  let ?pf = "\<lambda>r. ReplaceAllString (fst r @ ''_'' @ snd r) []"
  from Cons.prems obtain mc1 where first: "InitializeRoute r mc = Inr mc1"
    and rest: "Initialize routes mc1 = Inr mc'"
    by (auto simp: andThen_Inr)
  from first have here: "metricMap mc (Sprintf_s_s HttpRequestCountMetricName (?pf r)) = None"
    and mc1: "mc1 = mc\<lparr>metricMap := (metricMap mc)
        (Sprintf_s_s HttpRequestCountMetricName (?pf r) \<mapsto> Counter 0,
         Sprintf_s_s HttpRequestDurationMetricName (?pf r) \<mapsto> Histogram latencyBuckets [])\<rparr>"
    by (simp_all add: InitializeRoute_Inr)
  from Cons.IH [OF rest] have d: "distinct (map ?pf routes)"
    and later: "\<forall>q \<in> set routes.
        metricMap mc1 (Sprintf_s_s HttpRequestCountMetricName (?pf q)) = None"
    by simp_all
  have each: "?pf q \<noteq> ?pf r
      \<and> metricMap mc (Sprintf_s_s HttpRequestCountMetricName (?pf q)) = None"
    if q: "q \<in> set routes" for q
  proof -
    from bspec [OF later q]
    have "metricMap mc1 (Sprintf_s_s HttpRequestCountMetricName (?pf q)) = None" .
    then show ?thesis
      by (simp add: mc1 key_same_prefix count_key_not_duration_key split: if_splits)
  qed
  have "?pf r \<notin> ?pf ` set routes"
  proof
    assume "?pf r \<in> ?pf ` set routes"
    then obtain q where q: "q \<in> set routes" and same: "?pf r = ?pf q"
      by blast
    from each [OF q] same show False
      by simp
  qed
  with d here each show ?case by simp
qed

lemma Initialize_collision:
  "Initialize [(''GET'', ''/health''), (''GET'', ''/health1'')] NewMetricPublisher
     = Inl (AlreadyRegistered ''http_request_count_GET_health'')"
  by (simp add: InitializeRoute_def InsertCounter_def InsertHistogram_def Let_def
        NewMetricPublisher_def Sprintf_s_s_def HttpRequestCountMetricName_def
        HttpRequestDurationMetricName_def ReplaceAllString_filter inClass_def)

lemma Initialize_health:
  "Initialize [(''GET'', ''/health'')] NewMetricPublisher
     = Inr \<lparr>metricMap = [''http_request_count_GET_health'' \<mapsto> Counter 0,
                         ''http_request_duration_ms_GET_health'' \<mapsto> Histogram latencyBuckets []]\<rparr>"
  by (simp add: InitializeRoute_def InsertCounter_def InsertHistogram_def Let_def
        NewMetricPublisher_def Sprintf_s_s_def HttpRequestCountMetricName_def
        HttpRequestDurationMetricName_def ReplaceAllString_filter inClass_def)

lemma dom_PublishCounter:
  "PublishCounter prefix ctx mc = Inr mc' \<Longrightarrow> dom (metricMap mc') = dom (metricMap mc)"
  by (auto simp: PublishCounter_def Let_def split: option.splits metric.splits if_splits)

lemma dom_GetHistogram:
  "GetHistogram prefix ctx v mc = Inr mc' \<Longrightarrow> dom (metricMap mc') = dom (metricMap mc)"
  by (auto simp: GetHistogram_def Let_def split: option.splits metric.splits if_splits)

lemma PublishCounter_absent:
  "Sprintf_s_s prefix (GetMetricName ctx) \<notin> dom (metricMap mc) \<Longrightarrow>
   PublishCounter prefix ctx mc = Inr mc"
  by (auto simp: PublishCounter_def Let_def split: option.splits)

lemma GetHistogram_absent:
  "Sprintf_s_s prefix (GetMetricName ctx) \<notin> dom (metricMap mc) \<Longrightarrow>
   GetHistogram prefix ctx v mc = Inr mc"
  by (auto simp: GetHistogram_def Let_def split: option.splits)

lemma micro_key_absent:
  "Initialize routes NewMetricPublisher = Inr mc \<Longrightarrow>
   Sprintf_s_s HttpRequestDurationMicroMetricName n \<notin> dom (metricMap mc)"
  by (drule dom_Initialize)
     (simp add: NewMetricPublisher_def Sprintf_s_s_def
        HttpRequestCountMetricName_def HttpRequestDurationMetricName_def
        HttpRequestDurationMicroMetricName_def)

lemma dom_publishRequestMetrics:
  "publishRequestMetrics x c mp = Inr mp' \<Longrightarrow> dom (metricMap mp') = dom (metricMap mp)"
  unfolding publishRequestMetrics_def andThen_Inr
  by (metis dom_PublishCounter dom_GetHistogram)

lemmas registry_defs =
  PublishCounter_def GetHistogram_def GetMetricName_filter Sprintf_s_s_def
  HttpRequestCountMetricName_def HttpRequestDurationMetricName_def
  HttpRequestDurationMicroMetricName_def InitializeRoute_def InsertCounter_def
  InsertHistogram_def NewMetricPublisher_def inClass_def publishRequestMetrics_def

lemmas cache_defs =
  newUserCache_def cacheSizeOf_def NewLRU_def ParseInt_def ParseUint_def isDigit_def
  maxUint64_def resolveUser_def Contains_def Get_def Add_def removeKey_def

lemmas chain_defs =
  serve_def middlewareChain_def metricsRoute_def pprofMiddleware_def limiterMiddleware_def
  LimitReached_def tracerMiddleware_def requestidMiddleware_def requestIdOf_def
  identityMiddleware_def loggingMiddleware_def tagsMiddleware_def healthHandler_def
  routeStack_def GetTracer_def GetLogger_def localString_def spanLocal_def setLocal_def
  emit_def JSON_def SendStatus_def startProcess_def firstRequest_def newCtx_def
  responseHeader_def

text \<open>
  C9. The metric name derived from any method and path contains only characters of the class
  \<^verbatim>\<open>[_A-Za-z]\<close>, and normalizing it again returns it unchanged; for \<^verbatim>\<open>GET\<close> and
  \<^verbatim>\<open>/health\<close> it is \<^verbatim>\<open>GET_health\<close>. The registry keys built from it with the three metric
  name prefixes stay within the class as well.
\<close>

theorem metric_key_normalized:
  "list_all inClass (GetMetricName ctx)
   \<and> ReplaceAllString (GetMetricName ctx) [] = GetMetricName ctx
   \<and> GetMetricName (newCtx ''GET'' ''/health'' ip hdrs) = ''GET_health''
   \<and> list_all inClass (Sprintf_s_s HttpRequestCountMetricName (GetMetricName ctx))
   \<and> list_all inClass (Sprintf_s_s HttpRequestDurationMetricName (GetMetricName ctx))
   \<and> list_all inClass (Sprintf_s_s HttpRequestDurationMicroMetricName (GetMetricName ctx))"
proof -
  have clean: "list_all inClass (GetMetricName ctx)"
    by (auto simp: GetMetricName_filter list_all_iff)
  have idem: "ReplaceAllString (GetMetricName ctx) [] = GetMetricName ctx"
    by (simp add: GetMetricName_filter ReplaceAllString_filter)
  have health: "GetMetricName (newCtx ''GET'' ''/health'' ip hdrs) = ''GET_health''"
    by (simp add: GetMetricName_filter newCtx_def inClass_def)
  show ?thesis
    using clean idem health prefixes_inClass
    by (simp add: Sprintf_s_s_def inClass_underscore)
qed

theorem metric_key_normalized_witness:
  "list_all inClass (GetMetricName (newCtx ''GET'' ''/health'' ''10.0.0.1'' Map.empty))
   \<and> ReplaceAllString ''GET_health'' [] = ''GET_health''"
  using metric_key_normalized [of "newCtx ''GET'' ''/health'' ''10.0.0.1'' Map.empty" "''10.0.0.1''" Map.empty]
  by (simp add: inClass_def)

text \<open>
  C10. Normalization keeps exactly the characters of the class, so digits and slashes are
  dropped and it is not injective: the distinct paths \<^verbatim>\<open>/health\<close> and \<^verbatim>\<open>/health1\<close> give
  the same metric name, and with only \<^verbatim>\<open>GET /health\<close> in the route table a counter
  publication for a request to \<^verbatim>\<open>/health1\<close> increments the counter registered for
  \<^verbatim>\<open>GET /health\<close>.
\<close>

theorem metric_key_not_injective:
  "GetMetricName ctx = filter inClass (Method ctx @ ''_'' @ Path ctx)
   \<and> list_all (\<lambda>c. \<not> inClass c) ''0123456789/''
   \<and> ''/health1'' \<noteq> ''/health''
   \<and> GetMetricName (newCtx ''GET'' ''/health1'' ip hdrs)
       = GetMetricName (newCtx ''GET'' ''/health'' ip hdrs)
   \<and> (\<exists>mc0 mc'.
         Initialize [(''GET'', ''/health'')] NewMetricPublisher = Inr mc0
       \<and> metricMap mc0
           (Sprintf_s_s HttpRequestCountMetricName (GetMetricName (newCtx ''GET'' ''/health'' ip hdrs)))
          = Some (Counter 0)
       \<and> PublishCounter HttpRequestCountMetricName (newCtx ''GET'' ''/health1'' ip hdrs) mc0
          = Inr mc'
       \<and> metricMap mc'
           (Sprintf_s_s HttpRequestCountMetricName (GetMetricName (newCtx ''GET'' ''/health'' ip hdrs)))
          = Some (Counter 1))"
proof -
  have strip: "list_all (\<lambda>c. \<not> inClass c) ''0123456789/''"
    by (simp add: inClass_def)
  have same: "GetMetricName (newCtx ''GET'' ''/health1'' ip hdrs)
                = GetMetricName (newCtx ''GET'' ''/health'' ip hdrs)"
    by (simp add: GetMetricName_filter newCtx_def inClass_def)
  have publish: "\<exists>mc0 mc'.
         Initialize [(''GET'', ''/health'')] NewMetricPublisher = Inr mc0
       \<and> metricMap mc0
           (Sprintf_s_s HttpRequestCountMetricName (GetMetricName (newCtx ''GET'' ''/health'' ip hdrs)))
          = Some (Counter 0)
       \<and> PublishCounter HttpRequestCountMetricName (newCtx ''GET'' ''/health1'' ip hdrs) mc0
          = Inr mc'
       \<and> metricMap mc'
           (Sprintf_s_s HttpRequestCountMetricName (GetMetricName (newCtx ''GET'' ''/health'' ip hdrs)))
          = Some (Counter 1)"
    by (simp add: Initialize_health PublishCounter_def GetMetricName_filter Sprintf_s_s_def
          HttpRequestCountMetricName_def inClass_def newCtx_def Let_def
          del: Initialize.simps)
  show ?thesis
    using strip same publish by (simp add: GetMetricName_filter)
qed

text \<open>
  The key set of the registry through a whole request, and one request \<^verbatim>\<open>GET /health\<close>
  followed through the chain of a freshly started process.
\<close>

lemma routeStack_keys:
  assumes "routeStack x s = Inr (e, c', p')"
  shows "dom (metricMap (metricPublisher p')) = dom (metricMap (metricPublisher (snd s)))"
  using assms
  by (cases s)
     (auto simp: routeStack_def healthHandler_def andThen_Inr emit_def Let_def split: if_splits)

lemma tagsMiddleware_keys:
  assumes nxt: "\<And>s e c' p'. nxt x s = Inr (e, c', p') \<Longrightarrow>
      dom (metricMap (metricPublisher p')) = dom (metricMap (metricPublisher (snd s)))"
    and run: "tagsMiddleware nxt x s = Inr (e, c', p')"
  shows "dom (metricMap (metricPublisher p')) = dom (metricMap (metricPublisher (snd s)))"
  using run
  by (cases s) (clarsimp simp: tagsMiddleware_def andThen_Inr emit_def Let_def dest!: nxt)

lemma loggingMiddleware_keys:
  assumes nxt: "\<And>s e c' p'. nxt x s = Inr (e, c', p') \<Longrightarrow>
      dom (metricMap (metricPublisher p')) = dom (metricMap (metricPublisher (snd s)))"
    and run: "loggingMiddleware nxt x s = Inr (e, c', p')"
  shows "dom (metricMap (metricPublisher p')) = dom (metricMap (metricPublisher (snd s)))"
  using run
  by (cases s)
     (clarsimp simp: loggingMiddleware_def andThen_Inr emit_def Let_def
           dest!: nxt dom_publishRequestMetrics)

lemma identityMiddleware_keys:
  assumes nxt: "\<And>s e c' p'. nxt x s = Inr (e, c', p') \<Longrightarrow>
      dom (metricMap (metricPublisher p')) = dom (metricMap (metricPublisher (snd s)))"
    and run: "identityMiddleware nxt x s = Inr (e, c', p')"
  shows "dom (metricMap (metricPublisher p')) = dom (metricMap (metricPublisher (snd s)))"
  using run
  by (cases s) (clarsimp simp: identityMiddleware_def andThen_Inr emit_def Let_def dest!: nxt)

lemma serve_keys:
  assumes "serve x (c, p) = Inr (e, c', p')"
  shows "dom (metricMap (metricPublisher p')) = dom (metricMap (metricPublisher p))"
proof -
  have inner: "\<And>s e c' p'.
      identityMiddleware (loggingMiddleware (tagsMiddleware routeStack)) x s = Inr (e, c', p') \<Longrightarrow>
      dom (metricMap (metricPublisher p')) = dom (metricMap (metricPublisher (snd s)))"
    by (erule identityMiddleware_keys [rotated], erule loggingMiddleware_keys [rotated],
        erule tagsMiddleware_keys [rotated], erule routeStack_keys)
  from assms show ?thesis
    by (clarsimp simp: serve_def middlewareChain_def metricsRoute_def pprofMiddleware_def
          limiterMiddleware_def LimitReached_def tracerMiddleware_def requestidMiddleware_def
          andThen_Inr emit_def Let_def split: if_splits dest!: inner)
qed

lemma FormatInt_200: "FormatInt 200 = ''200''"
  by (simp add: FormatInt_def decimal.simps)

lemma startProcess_health:
  "startProcess ''2'' [(''GET'', ''/health'')]
     = Inr \<lparr>userCache = Some \<lparr>sizeLRU = 2, evictList = []\<rparr>,
            metricPublisher =
              \<lparr>metricMap = [''http_request_count_GET_health'' \<mapsto> Counter 0,
                            ''http_request_duration_ms_GET_health''
                              \<mapsto> Histogram latencyBuckets []]\<rparr>,
            opsProcessed = 0,
            events = []\<rparr>"
  by (simp add: startProcess_def Initialize_health cache_defs del: Initialize.simps)

lemma health_request_trace:
  "\<exists>p c' p'.
     startProcess ''2'' [(''GET'', ''/health'')] = Inr p
   \<and> serve \<lparr>metricsRouteMatches = False, pprofServes = False, limiterAllows = True,
            healthRouteMatches = True, generatedRequestId = ''rid-1'', generatedUserId = ''uid-1'',
            rejectTime = 7, healthTime = 8, elapsedMillis = 3, elapsedMicros = 3200\<rparr>
       (newCtx ''GET'' ''/health'' ''10.0.0.1'' Map.empty, p)
     = Inr (None, c', p')
   \<and> respBody c' = Some (HealthCheckResponse 8 ''OK'') \<and> respStatus c' = 200
   \<and> userCache p' = Some \<lparr>sizeLRU = 2, evictList = [(''10.0.0.1'', ''uid-1'')]\<rparr>
   \<and> opsProcessed p' = 1
   \<and> metricMap (metricPublisher p') ''http_request_count_GET_health'' = Some (Counter 1)
   \<and> metricMap (metricPublisher p') ''http_request_duration_ms_GET_health''
       = Some (Histogram latencyBuckets [3])
   \<and> metricMap (metricPublisher p') ''http_request_duration_micro_GET_health'' = None
   \<and> events p' =
       [SpanStart ''/health'',
        SpanStart ''resolveUser'', SpanFinish ''resolveUser'',
        SpanStart ''createLogger'', SpanFinish ''createLogger'',
        SpanStart ''infoLog'',
        LogRecord ''info'' ''Request Started''
          [(''RequestID'', ''rid-1''), (''method'', ''GET''), (''path'', ''/health''),
           (''scope'', ''client-request''), (''userId'', ''uid-1'')],
        SpanFinish ''infoLog'',
        SpanTag ''/health'' ''userId'' ''uid-1'', SpanTag ''/health'' ''requestId'' ''rid-1'',
        SpanTag ''/health'' ''method'' ''GET'', SpanTag ''/health'' ''path'' ''/health'',
        SpanStart ''health'', SpanStart ''get-logger'',
        LogRecord ''debug'' ''Creating health check response''
          [(''RequestID'', ''rid-1''), (''method'', ''GET''), (''path'', ''/health''),
           (''scope'', ''client-request''), (''userId'', ''uid-1'')],
        SpanFinish ''get-logger'',
        SpanStart ''marshal-json'', SpanFinish ''marshal-json'',
        SpanFinish ''health'',
        SpanTag ''/health'' ''status'' ''200'',
        LogRecord ''info'' ''Request Completed''
          [(''RequestID'', ''rid-1''), (''method'', ''GET''), (''path'', ''/health''),
           (''scope'', ''client-request''), (''userId'', ''uid-1'')],
        SpanFinish ''/health'']"
  by (simp add: startProcess_health serve_def middlewareChain_def metricsRoute_def
        pprofMiddleware_def limiterMiddleware_def LimitReached_def tracerMiddleware_def
        requestidMiddleware_def requestIdOf_def identityMiddleware_def loggingMiddleware_def
        tagsMiddleware_def healthHandler_def routeStack_def GetTracer_def GetLogger_def
        localString_def spanLocal_def setLocal_def emit_def JSON_def SendStatus_def newCtx_def
        resolveUser_def Contains_def Get_def Add_def removeKey_def
        PublishCounter_def GetHistogram_def GetMetricName_filter Sprintf_s_s_def
        HttpRequestCountMetricName_def HttpRequestDurationMetricName_def
        HttpRequestDurationMicroMetricName_def inClass_def publishRequestMetrics_def
        Let_def FormatInt_200)

text \<open>
  C7. The registry starts empty and \<^verbatim>\<open>Initialize\<close> returns for every route table in which
  no two routes normalize to one key, and for no other: with two routes that do, a
  registration panics on the name registered already and no registry comes to be (lemma
  \<open>Initialize_collision\<close> is the table of \<^verbatim>\<open>GET /health\<close> and \<^verbatim>\<open>GET /health1\<close>). When
  it returns, the keys of the registry are the count key and the duration key of every route
  of the table, and no others. A publication that returns leaves the set of keys as it was, and so
  does a whole request; a publication for a key that is not in the registry returns with the
  registry unchanged.
\<close>

theorem metric_keys_fixed:
  "(distinct (map (\<lambda>r. ReplaceAllString (fst r @ ''_'' @ snd r) []) routes) \<longrightarrow>
      (\<exists>m. Initialize routes NewMetricPublisher = Inr m))
   \<and> (Initialize routes NewMetricPublisher = Inr mci \<longrightarrow>
        dom (metricMap mci) =
          (\<Union>r \<in> set routes.
             {Sprintf_s_s HttpRequestCountMetricName (ReplaceAllString (fst r @ ''_'' @ snd r) []),
              Sprintf_s_s HttpRequestDurationMetricName (ReplaceAllString (fst r @ ''_'' @ snd r) [])}))
   \<and> (PublishCounter prefix ctx mc = Inr mc' \<longrightarrow> dom (metricMap mc') = dom (metricMap mc))
   \<and> (GetHistogram prefix ctx v mc = Inr mc' \<longrightarrow> dom (metricMap mc') = dom (metricMap mc))
   \<and> (publishRequestMetrics x ctx mc = Inr mc' \<longrightarrow> dom (metricMap mc') = dom (metricMap mc))
   \<and> (Sprintf_s_s prefix (GetMetricName ctx) \<notin> dom (metricMap mc) \<longrightarrow>
        PublishCounter prefix ctx mc = Inr mc \<and> GetHistogram prefix ctx v mc = Inr mc)
   \<and> (serve x (c, p) = Inr (e, c', p') \<longrightarrow>
        dom (metricMap (metricPublisher p')) = dom (metricMap (metricPublisher p)))
   \<and> (\<not> distinct (map (\<lambda>r. ReplaceAllString (fst r @ ''_'' @ snd r) []) routes) \<longrightarrow>
        (\<exists>name. Initialize routes NewMetricPublisher = Inl (AlreadyRegistered name)))"
proof -
  have panics: "\<not> distinct (map (\<lambda>r. ReplaceAllString (fst r @ ''_'' @ snd r) []) routes) \<longrightarrow>
        (\<exists>name. Initialize routes NewMetricPublisher = Inl (AlreadyRegistered name))"
  proof
    assume twice: "\<not> distinct (map (\<lambda>r. ReplaceAllString (fst r @ ''_'' @ snd r) []) routes)"
    show "\<exists>name. Initialize routes NewMetricPublisher = Inl (AlreadyRegistered name)"
    proof (cases "Initialize routes NewMetricPublisher")
      case (Inl e)
      from Initialize_panics [OF Inl] Inl show ?thesis by auto
    next
      case (Inr m)
      from Initialize_Inr_distinct [OF Inr] twice show ?thesis by simp
    qed
  qed
  have returns: "distinct (map (\<lambda>r. ReplaceAllString (fst r @ ''_'' @ snd r) []) routes) \<longrightarrow>
      (\<exists>m. Initialize routes NewMetricPublisher = Inr m)"
  proof
    assume "distinct (map (\<lambda>r. ReplaceAllString (fst r @ ''_'' @ snd r) []) routes)"
    then show "\<exists>m. Initialize routes NewMetricPublisher = Inr m"
      by (rule Initialize_returns) (simp add: NewMetricPublisher_def)
  qed
  have keys: "Initialize routes NewMetricPublisher = Inr mci \<longrightarrow>
        dom (metricMap mci) =
          (\<Union>r \<in> set routes.
             {Sprintf_s_s HttpRequestCountMetricName (ReplaceAllString (fst r @ ''_'' @ snd r) []),
              Sprintf_s_s HttpRequestDurationMetricName (ReplaceAllString (fst r @ ''_'' @ snd r) [])})"
  proof
    assume "Initialize routes NewMetricPublisher = Inr mci"
    from dom_Initialize [OF this] show "dom (metricMap mci) =
          (\<Union>r \<in> set routes.
             {Sprintf_s_s HttpRequestCountMetricName (ReplaceAllString (fst r @ ''_'' @ snd r) []),
              Sprintf_s_s HttpRequestDurationMetricName (ReplaceAllString (fst r @ ''_'' @ snd r) [])})"
      by (simp add: NewMetricPublisher_def)
  qed
  from returns keys
       dom_PublishCounter [of prefix ctx mc mc'] dom_GetHistogram [of prefix ctx v mc mc']
       dom_publishRequestMetrics [of x ctx mc mc']
       PublishCounter_absent [of prefix ctx mc] GetHistogram_absent [of prefix ctx mc v]
       serve_keys [of x c p e c' p'] panics
  show ?thesis by blast
qed

theorem metric_keys_fixed_witness:
  "distinct (map (\<lambda>r. ReplaceAllString (fst r @ ''_'' @ snd r) []) [(''GET'', ''/health'')])
   \<and> (\<exists>mc0. Initialize [(''GET'', ''/health'')] NewMetricPublisher = Inr mc0
        \<and> dom (metricMap mc0)
            = {''http_request_count_GET_health'', ''http_request_duration_ms_GET_health''}
        \<and> PublishCounter HttpRequestCountMetricName
            (newCtx ''GET'' ''/other'' ''10.0.0.1'' Map.empty) mc0 = Inr mc0
        \<and> GetHistogram HttpRequestCountMetricName
            (newCtx ''GET'' ''/other'' ''10.0.0.1'' Map.empty) 3 mc0 = Inr mc0
        \<and> publishRequestMetrics
            \<lparr>metricsRouteMatches = False, pprofServes = False, limiterAllows = True,
             healthRouteMatches = True, generatedRequestId = ''rid-1'', generatedUserId = ''uid-1'',
             rejectTime = 7, healthTime = 8, elapsedMillis = 3, elapsedMicros = 3200\<rparr>
            (newCtx ''GET'' ''/other'' ''10.0.0.1'' Map.empty) mc0 = Inr mc0
        \<and> (\<exists>mc'. PublishCounter HttpRequestCountMetricName
                    (newCtx ''GET'' ''/health'' ''10.0.0.1'' Map.empty) mc0 = Inr mc'
              \<and> metricMap mc' ''http_request_count_GET_health'' = Some (Counter 1)
              \<and> dom (metricMap mc')
                  = {''http_request_count_GET_health'', ''http_request_duration_ms_GET_health''}))
   \<and> (\<exists>p c' p'. startProcess ''2'' [(''GET'', ''/health'')] = Inr p
        \<and> serve
            \<lparr>metricsRouteMatches = False, pprofServes = False, limiterAllows = True,
             healthRouteMatches = True, generatedRequestId = ''rid-1'', generatedUserId = ''uid-1'',
             rejectTime = 7, healthTime = 8, elapsedMillis = 3, elapsedMicros = 3200\<rparr>
            (newCtx ''GET'' ''/health'' ''10.0.0.1'' Map.empty, p) = Inr (None, c', p')
        \<and> dom (metricMap (metricPublisher p'))
            = {''http_request_count_GET_health'', ''http_request_duration_ms_GET_health''})
   \<and> \<not> distinct (map (\<lambda>r. ReplaceAllString (fst r @ ''_'' @ snd r) [])
                    [(''GET'', ''/health''), (''GET'', ''/health1'')])
   \<and> (\<exists>name. Initialize [(''GET'', ''/health''), (''GET'', ''/health1'')] NewMetricPublisher
                = Inl (AlreadyRegistered name))"
proof -
  let ?routes = "[(''GET'', ''/health'')]"
  let ?two = "[(''GET'', ''/health''), (''GET'', ''/health1'')]"
  let ?other = "newCtx ''GET'' ''/other'' ''10.0.0.1'' Map.empty"
  let ?health = "newCtx ''GET'' ''/health'' ''10.0.0.1'' Map.empty"
  let ?x = "\<lparr>metricsRouteMatches = False, pprofServes = False, limiterAllows = True,
             healthRouteMatches = True, generatedRequestId = ''rid-1'', generatedUserId = ''uid-1'',
             rejectTime = 7, healthTime = 8, elapsedMillis = 3, elapsedMicros = 3200\<rparr>"
  let ?K = "{''http_request_count_GET_health'', ''http_request_duration_ms_GET_health''}"
  have d: "distinct (map (\<lambda>r. ReplaceAllString (fst r @ ''_'' @ snd r) []) ?routes)"
    by simp
  note general = metric_keys_fixed [where routes = ?routes and prefix = HttpRequestCountMetricName
      and x = ?x and v = 3]
  from general [where ctx = ?other, THEN conjunct1] d
  obtain mc0 where init: "Initialize ?routes NewMetricPublisher = Inr mc0"
    by blast
  have keys: "(\<Union>r \<in> set ?routes.
        {Sprintf_s_s HttpRequestCountMetricName (ReplaceAllString (fst r @ ''_'' @ snd r) []),
         Sprintf_s_s HttpRequestDurationMetricName (ReplaceAllString (fst r @ ''_'' @ snd r) [])})
      = ?K"
    by (simp add: registry_defs ReplaceAllString_filter)
  from general [where ctx = ?other and mci = mc0, THEN conjunct2, THEN conjunct1] init
  have "dom (metricMap mc0) = (\<Union>r \<in> set ?routes.
        {Sprintf_s_s HttpRequestCountMetricName (ReplaceAllString (fst r @ ''_'' @ snd r) []),
         Sprintf_s_s HttpRequestDurationMetricName (ReplaceAllString (fst r @ ''_'' @ snd r) [])})"
    by blast
  then have domain: "dom (metricMap mc0) = ?K"
    by (simp only: keys)
  from init have mc0_eq: "mc0 = \<lparr>metricMap = [''http_request_count_GET_health'' \<mapsto> Counter 0,
       ''http_request_duration_ms_GET_health'' \<mapsto> Histogram latencyBuckets []]\<rparr>"
    by (simp add: Initialize_health del: Initialize.simps)
  have absent: "Sprintf_s_s HttpRequestCountMetricName (GetMetricName ?other) \<notin> dom (metricMap mc0)"
    by (simp add: mc0_eq GetMetricName_filter Sprintf_s_s_def HttpRequestCountMetricName_def
          inClass_def newCtx_def)
  from general [where ctx = ?other and mc = mc0, THEN conjunct2, THEN conjunct2,
      THEN conjunct2, THEN conjunct2, THEN conjunct2, THEN conjunct1] absent
  have noop: "PublishCounter HttpRequestCountMetricName ?other mc0 = Inr mc0
     \<and> GetHistogram HttpRequestCountMetricName ?other 3 mc0 = Inr mc0"
    by blast
  have all3: "publishRequestMetrics ?x ?other mc0 = Inr mc0"
    by (simp add: mc0_eq publishRequestMetrics_def PublishCounter_def GetHistogram_def
          GetMetricName_filter Sprintf_s_s_def HttpRequestCountMetricName_def
          HttpRequestDurationMetricName_def HttpRequestDurationMicroMetricName_def
          inClass_def newCtx_def Let_def)
  obtain mc' where inc: "PublishCounter HttpRequestCountMetricName ?health mc0 = Inr mc'"
    and one: "metricMap mc' ''http_request_count_GET_health'' = Some (Counter 1)"
    by (simp add: mc0_eq PublishCounter_def GetMetricName_filter Sprintf_s_s_def
          HttpRequestCountMetricName_def inClass_def newCtx_def Let_def)
  from general [where ctx = ?health and mc = mc0 and mc' = mc', THEN conjunct2,
      THEN conjunct2, THEN conjunct1] inc
  have "dom (metricMap mc') = dom (metricMap mc0)"
    by blast
  then have published: "dom (metricMap mc') = ?K"
    by (simp only: domain)
  from health_request_trace obtain p c1 p1
    where start: "startProcess ''2'' ?routes = Inr p"
      and run: "serve ?x (?health, p) = Inr (None, c1, p1)"
    by blast
  from start have started: "metricPublisher p = mc0"
    by (auto simp add: startProcess_def init simp del: Initialize.simps)
  from general [where ctx = ?health and c = ?health and p = p and e = None and c' = c1
      and p' = p1, THEN conjunct2, THEN conjunct2, THEN conjunct2, THEN conjunct2,
      THEN conjunct2, THEN conjunct2, THEN conjunct1] run
  have "dom (metricMap (metricPublisher p1)) = dom (metricMap (metricPublisher p))"
    by blast
  then have served: "dom (metricMap (metricPublisher p1)) = ?K"
    by (simp only: started domain)
  have twice: "\<not> distinct (map (\<lambda>r. ReplaceAllString (fst r @ ''_'' @ snd r) []) ?two)"
    by (simp add: ReplaceAllString_filter inClass_def)
  from metric_keys_fixed [where routes = ?two, THEN conjunct2, THEN conjunct2, THEN conjunct2,
      THEN conjunct2, THEN conjunct2, THEN conjunct2, THEN conjunct2] twice
  have panic: "\<exists>name. Initialize ?two NewMetricPublisher = Inl (AlreadyRegistered name)"
    by blast
  from d init domain noop all3 inc one published start run served twice panic
  show ?thesis by blast
qed

text \<open>
  C1. No histogram is ever registered under the microsecond prefix: whatever the route table,
  the microsecond observation of a request finds no key and leaves the registry as it is.
  For a request \<^verbatim>\<open>GET /health\<close> against the registry initialized with that route, the three
  publications of the logging middleware increment the counter and record the millisecond
  value, and the microsecond value is recorded nowhere; so it is at the end of that request
  through the whole chain.
\<close>

theorem micro_histogram_never_recorded:
  "andThen (Initialize routes NewMetricPublisher)
     (GetHistogram HttpRequestDurationMicroMetricName ctx v)
     = Initialize routes NewMetricPublisher
   \<and> (\<exists>mc0 mc'.
         Initialize [(''GET'', ''/health'')] NewMetricPublisher = Inr mc0
       \<and> publishRequestMetrics x (newCtx ''GET'' ''/health'' ip hdrs) mc0 = Inr mc'
       \<and> metricMap mc' ''http_request_count_GET_health'' = Some (Counter 1)
       \<and> metricMap mc' ''http_request_duration_ms_GET_health''
           = Some (Histogram latencyBuckets [elapsedMillis x])
       \<and> metricMap mc' ''http_request_duration_micro_GET_health'' = None
       \<and> dom (metricMap mc')
           = {''http_request_count_GET_health'', ''http_request_duration_ms_GET_health''})
   \<and> (\<exists>p c' p'.
         startProcess ''2'' [(''GET'', ''/health'')] = Inr p
       \<and> serve
           \<lparr>metricsRouteMatches = False, pprofServes = False, limiterAllows = True,
            healthRouteMatches = True, generatedRequestId = ''rid-1'', generatedUserId = ''uid-1'',
            rejectTime = 7, healthTime = 8, elapsedMillis = 3, elapsedMicros = 3200\<rparr>
           (newCtx ''GET'' ''/health'' ''10.0.0.1'' Map.empty, p) = Inr (None, c', p')
       \<and> metricMap (metricPublisher p') ''http_request_count_GET_health'' = Some (Counter 1)
       \<and> metricMap (metricPublisher p') ''http_request_duration_ms_GET_health''
           = Some (Histogram latencyBuckets [3])
       \<and> metricMap (metricPublisher p') ''http_request_duration_micro_GET_health'' = None)"
proof -
  have general: "andThen (Initialize routes NewMetricPublisher)
     (GetHistogram HttpRequestDurationMicroMetricName ctx v)
     = Initialize routes NewMetricPublisher"
  proof (cases "Initialize routes NewMetricPublisher")
    case (Inl e)
    then show ?thesis by simp
  next
    case (Inr mc)
    from micro_key_absent [OF Inr]
    have "GetHistogram HttpRequestDurationMicroMetricName ctx v mc = Inr mc"
      by (rule GetHistogram_absent)
    with Inr show ?thesis by simp
  qed
  have health: "\<exists>mc0 mc'.
         Initialize [(''GET'', ''/health'')] NewMetricPublisher = Inr mc0
       \<and> publishRequestMetrics x (newCtx ''GET'' ''/health'' ip hdrs) mc0 = Inr mc'
       \<and> metricMap mc' ''http_request_count_GET_health'' = Some (Counter 1)
       \<and> metricMap mc' ''http_request_duration_ms_GET_health''
           = Some (Histogram latencyBuckets [elapsedMillis x])
       \<and> metricMap mc' ''http_request_duration_micro_GET_health'' = None
       \<and> dom (metricMap mc')
           = {''http_request_count_GET_health'', ''http_request_duration_ms_GET_health''}"
    by (simp add: Initialize_health publishRequestMetrics_def PublishCounter_def GetHistogram_def
          GetMetricName_filter Sprintf_s_s_def HttpRequestCountMetricName_def
          HttpRequestDurationMetricName_def HttpRequestDurationMicroMetricName_def
          inClass_def newCtx_def Let_def del: Initialize.simps) auto
  from health_request_trace
  have chain: "\<exists>p c' p'.
         startProcess ''2'' [(''GET'', ''/health'')] = Inr p
       \<and> serve
           \<lparr>metricsRouteMatches = False, pprofServes = False, limiterAllows = True,
            healthRouteMatches = True, generatedRequestId = ''rid-1'', generatedUserId = ''uid-1'',
            rejectTime = 7, healthTime = 8, elapsedMillis = 3, elapsedMicros = 3200\<rparr>
           (newCtx ''GET'' ''/health'' ''10.0.0.1'' Map.empty, p) = Inr (None, c', p')
       \<and> metricMap (metricPublisher p') ''http_request_count_GET_health'' = Some (Counter 1)
       \<and> metricMap (metricPublisher p') ''http_request_duration_ms_GET_health''
           = Some (Histogram latencyBuckets [3])
       \<and> metricMap (metricPublisher p') ''http_request_duration_micro_GET_health'' = None"
    by blast
  from general health chain show ?thesis by blast
qed

section \<open>Properties of the identity cache\<close>

lemma resolveUser_hit:
  "map_of (evictList cache) k = Some v \<Longrightarrow>
   resolveUser (Some cache) k fresh =
     Inr (v, Some (cache\<lparr>evictList := (k, v) # removeKey k (evictList cache)\<rparr>))"
  by (simp add: resolveUser_def Contains_def Get_def)

lemma resolveUser_miss:
  "map_of (evictList cache) k = None \<Longrightarrow>
   resolveUser (Some cache) k fresh =
     Inr (fresh, Some (cache\<lparr>evictList :=
        (if int (length (evictList cache)) + 1 > sizeLRU cache
         then butlast ((k, fresh) # evictList cache) else (k, fresh) # evictList cache)\<rparr>))"
  by (simp add: resolveUser_def Contains_def Add_def Let_def)

lemma resolveUser_front:
  assumes "1 \<le> sizeLRU cache"
  shows "\<exists>v c'. resolveUser (Some cache) k fresh = Inr (v, Some c')
          \<and> hd (evictList c') = (k, v) \<and> map_of (evictList c') k = Some v
          \<and> sizeLRU c' = sizeLRU cache"
proof (cases "map_of (evictList cache) k")
  case None
  show ?thesis
  proof (cases "evictList cache")
    case Nil
    with None assms show ?thesis by (simp add: resolveUser_miss)
  next
    case (Cons e es)
    with None assms show ?thesis by (simp add: resolveUser_miss)
  qed
next
  case (Some v)
  then show ?thesis by (simp add: resolveUser_hit)
qed

lemma resolveUser_bounded:
  assumes "int (length (evictList cache)) \<le> sizeLRU cache"
    and "resolveUser (Some cache) k u = Inr (v, Some c')"
  shows "int (length (evictList c')) \<le> sizeLRU c' \<and> sizeLRU c' = sizeLRU cache"
proof (cases "map_of (evictList cache) k")
  case None
  with assms show ?thesis
    by (auto simp: resolveUser_miss split: if_splits)
next
  case (Some w)
  then have "(k, w) \<in> set (evictList cache)" by (rule map_of_SomeD)
  then have "length (removeKey k (evictList cache)) < length (evictList cache)"
    unfolding removeKey_def by (intro length_filter_less[of "(k, w)"]) auto
  with Some assms show ?thesis
    by (auto simp: resolveUser_hit)
qed

lemma newUserCache_values:
  "newUserCache ''1'' = Some \<lparr>sizeLRU = 1, evictList = []\<rparr>"
  "newUserCache ''2'' = Some \<lparr>sizeLRU = 2, evictList = []\<rparr>"
  "newUserCache [] = Some \<lparr>sizeLRU = 100, evictList = []\<rparr>"
  by (simp_all add: cache_defs)

text \<open>
  C6. In a cache of capacity at least 1, two successive resolutions of one client key
  return the same identity, and after the second, which is a hit, the entry of that key is
  the first of the list, the most recently used one.
\<close>

theorem identity_stable:
  assumes "1 \<le> sizeLRU cache"
  shows "\<exists>v c1 c2.
           resolveUser (Some cache) k u1 = Inr (v, Some c1)
         \<and> Contains c1 k
         \<and> resolveUser (Some c1) k u2 = Inr (v, Some c2)
         \<and> hd (evictList c2) = (k, v)"
proof -
  from resolveUser_front [OF assms, of k u1]
  obtain v c1 where r1: "resolveUser (Some cache) k u1 = Inr (v, Some c1)"
    and m1: "map_of (evictList c1) k = Some v"
    by blast
  from m1 have "resolveUser (Some c1) k u2 =
      Inr (v, Some (c1\<lparr>evictList := (k, v) # removeKey k (evictList c1)\<rparr>))"
    by (rule resolveUser_hit)
  with r1 m1 show ?thesis by (simp add: Contains_def)
qed

theorem identity_stable_witness:
  "\<exists>v c1 c2.
       resolveUser (newUserCache ''1'') ''10.0.0.1'' ''u1'' = Inr (v, Some c1)
     \<and> Contains c1 ''10.0.0.1''
     \<and> resolveUser (Some c1) ''10.0.0.1'' ''u2'' = Inr (v, Some c2)
     \<and> hd (evictList c2) = (''10.0.0.1'', v)"
proof -
  have "(1::int) \<le> sizeLRU \<lparr>sizeLRU = 1, evictList = []\<rparr>" by simp
  from identity_stable [OF this] show ?thesis by (simp add: newUserCache_values)
qed

text \<open>
  C5, as stated, resolved in the order of the claim: with capacity 2, the keys A, B, C and
  then A again, the next resolution of B is a miss, because inserting A again evicted B;
  B gets the identity \<^verbatim>\<open>u5\<close>, not its original \<^verbatim>\<open>u2\<close>.
\<close>

theorem lru_eviction_counterexample:
  "resolveSeq (newUserCache ''2'')
     [(''A'', ''u1''), (''B'', ''u2''), (''C'', ''u3''), (''A'', ''u4''), (''B'', ''u5'')]
   = Inr ([''u1'', ''u2'', ''u3'', ''u4'', ''u5''],
          Some \<lparr>sizeLRU = 2, evictList = [(''B'', ''u5''), (''A'', ''u4'')]\<rparr>)
   \<and> ''u5'' \<noteq> ''u2''"
  by (simp add: cache_defs)

text \<open>
  C5, amended. With capacity 2 and distinct keys A, B, C, resolving A, B, C in that order
  leaves C and B in the cache and A evicted. In that state B and C resolve to their original
  identities, and A resolves to the newly generated identity; that resolution of A evicts B,
  the least recently used entry, so that afterwards C still resolves to its original
  identity and B to a newly generated one.
\<close>

theorem lru_eviction:
  assumes "a \<noteq> b" "a \<noteq> c" "b \<noteq> c"
  shows "resolveSeq (Some \<lparr>sizeLRU = 2, evictList = []\<rparr>) [(a, u1), (b, u2), (c, u3)]
           = Inr ([u1, u2, u3], Some \<lparr>sizeLRU = 2, evictList = [(c, u3), (b, u2)]\<rparr>)
       \<and> resolveUser (Some \<lparr>sizeLRU = 2, evictList = [(c, u3), (b, u2)]\<rparr>) b u4
           = Inr (u2, Some \<lparr>sizeLRU = 2, evictList = [(b, u2), (c, u3)]\<rparr>)
       \<and> resolveUser (Some \<lparr>sizeLRU = 2, evictList = [(c, u3), (b, u2)]\<rparr>) c u4
           = Inr (u3, Some \<lparr>sizeLRU = 2, evictList = [(c, u3), (b, u2)]\<rparr>)
       \<and> resolveUser (Some \<lparr>sizeLRU = 2, evictList = [(c, u3), (b, u2)]\<rparr>) a u4
           = Inr (u4, Some \<lparr>sizeLRU = 2, evictList = [(a, u4), (c, u3)]\<rparr>)
       \<and> resolveUser (Some \<lparr>sizeLRU = 2, evictList = [(a, u4), (c, u3)]\<rparr>) c u5
           = Inr (u3, Some \<lparr>sizeLRU = 2, evictList = [(c, u3), (a, u4)]\<rparr>)
       \<and> resolveUser (Some \<lparr>sizeLRU = 2, evictList = [(a, u4), (c, u3)]\<rparr>) b u5
           = Inr (u5, Some \<lparr>sizeLRU = 2, evictList = [(b, u5), (a, u4)]\<rparr>)"
  using assms
  by (simp add: resolveUser_def Contains_def Get_def Add_def removeKey_def)

theorem lru_eviction_witness:
  "''A'' \<noteq> ''B'' \<and> ''A'' \<noteq> ''C'' \<and> ''B'' \<noteq> ''C''
   \<and> resolveSeq (newUserCache ''2'') [(''A'', ''u1''), (''B'', ''u2''), (''C'', ''u3'')]
       = Inr ([''u1'', ''u2'', ''u3''], Some \<lparr>sizeLRU = 2, evictList = [(''C'', ''u3''), (''B'', ''u2'')]\<rparr>)
   \<and> resolveUser (Some \<lparr>sizeLRU = 2, evictList = [(''C'', ''u3''), (''B'', ''u2'')]\<rparr>) ''A'' ''u4''
       = Inr (''u4'', Some \<lparr>sizeLRU = 2, evictList = [(''A'', ''u4''), (''C'', ''u3'')]\<rparr>)
   \<and> resolveUser (Some \<lparr>sizeLRU = 2, evictList = [(''A'', ''u4''), (''C'', ''u3'')]\<rparr>) ''B'' ''u5''
       = Inr (''u5'', Some \<lparr>sizeLRU = 2, evictList = [(''B'', ''u5''), (''A'', ''u4'')]\<rparr>)"
proof -
  have d: "''A'' \<noteq> ''B''" "''A'' \<noteq> ''C''" "''B'' \<noteq> ''C''" by simp_all
  from lru_eviction [OF d, of "''u1''" "''u2''" "''u3''" "''u4''" "''u5''"] d
  show ?thesis by (simp add: newUserCache_values)
qed

section \<open>Properties of the middleware chain\<close>

text \<open>
  C3. An environment value of \<^verbatim>\<open>0\<close>, \<^verbatim>\<open>-5\<close> or \<^verbatim>\<open>abc\<close> for the cache capacity is not
  rejected: the capacity becomes 0 or negative, the error of the cache constructor is dropped,
  and the start of the process goes on as with any other value, only with a cache pointer
  that is \<^verbatim>\<open>nil\<close>. Every request that reaches the identity middleware then ends in a
  nil-pointer panic.
\<close>

theorem nonpositive_capacity_not_rejected:
  "ParseInt ''abc'' = (0, Some ErrSyntax)
   \<and> cacheSizeOf ''abc'' = 0 \<and> cacheSizeOf ''0'' = 0 \<and> cacheSizeOf ''-5'' = - 5
   \<and> newUserCache ''abc'' = None \<and> newUserCache ''0'' = None \<and> newUserCache ''-5'' = None
   \<and> startProcess ''0'' routes
       = andThen (Initialize routes NewMetricPublisher) (\<lambda>mp.
           Inr \<lparr>userCache = None, metricPublisher = mp, opsProcessed = 0, events = []\<rparr>)
   \<and> middlewareChain h (x\<lparr>pprofServes := False, limiterAllows := True\<rparr>)
        (c, p\<lparr>userCache := None\<rparr>) = Inl NilPointerDereference
   \<and> firstRequest (startProcess ''0'' routes)
        (x\<lparr>metricsRouteMatches := False, pprofServes := False, limiterAllows := True\<rparr>) c
       = andThen (Initialize routes NewMetricPublisher) (\<lambda>mp. Inl NilPointerDereference)
   \<and> (\<exists>p0. startProcess ''0'' [(''GET'', ''/health'')] = Inr p0 \<and> userCache p0 = None)
   \<and> firstRequest (startProcess ''0'' [(''GET'', ''/health'')])
        (x\<lparr>metricsRouteMatches := False, pprofServes := False, limiterAllows := True\<rparr>) c
       = Inl NilPointerDereference"
proof -
  have parse: "ParseInt ''abc'' = (0, Some ErrSyntax)"
    by (simp add: cache_defs)
  have sizes: "cacheSizeOf ''abc'' = 0 \<and> cacheSizeOf ''0'' = 0 \<and> cacheSizeOf ''-5'' = - 5"
    by (simp add: cache_defs)
  have caches: "newUserCache ''abc'' = None \<and> newUserCache ''0'' = None \<and> newUserCache ''-5'' = None"
    by (simp add: cache_defs)
  have start: "startProcess ''0'' routes
       = andThen (Initialize routes NewMetricPublisher) (\<lambda>mp.
           Inr \<lparr>userCache = None, metricPublisher = mp, opsProcessed = 0, events = []\<rparr>)"
    using caches by (simp add: startProcess_def)
  have chain: "\<And>q. middlewareChain h (x\<lparr>pprofServes := False, limiterAllows := True\<rparr>)
          (c, q\<lparr>userCache := None\<rparr>) = Inl NilPointerDereference"
    by (simp add: middlewareChain_def pprofMiddleware_def limiterMiddleware_def
          tracerMiddleware_def requestidMiddleware_def identityMiddleware_def
          GetTracer_def setLocal_def emit_def resolveUser_def Let_def)
  have nil: "\<And>q. userCache q = None \<Longrightarrow>
      serve (x\<lparr>metricsRouteMatches := False, pprofServes := False, limiterAllows := True\<rparr>) (c, q)
        = Inl NilPointerDereference"
    by (simp add: serve_def middlewareChain_def pprofMiddleware_def limiterMiddleware_def
          tracerMiddleware_def requestidMiddleware_def identityMiddleware_def
          GetTracer_def setLocal_def emit_def resolveUser_def Let_def)
  have first: "\<And>rs. firstRequest (startProcess ''0'' rs)
        (x\<lparr>metricsRouteMatches := False, pprofServes := False, limiterAllows := True\<rparr>) c
       = andThen (Initialize rs NewMetricPublisher) (\<lambda>mp. Inl NilPointerDereference)"
  proof -
    fix rs
    show "firstRequest (startProcess ''0'' rs)
        (x\<lparr>metricsRouteMatches := False, pprofServes := False, limiterAllows := True\<rparr>) c
       = andThen (Initialize rs NewMetricPublisher) (\<lambda>mp. Inl NilPointerDereference)"
      using caches
      by (cases "Initialize rs NewMetricPublisher")
         (simp_all add: firstRequest_def startProcess_def nil)
  qed
  have started: "\<exists>p0. startProcess ''0'' [(''GET'', ''/health'')] = Inr p0 \<and> userCache p0 = None"
    using caches by (simp add: startProcess_def Initialize_health del: Initialize.simps)
  have health: "firstRequest (startProcess ''0'' [(''GET'', ''/health'')])
        (x\<lparr>metricsRouteMatches := False, pprofServes := False, limiterAllows := True\<rparr>) c
       = Inl NilPointerDereference"
    by (simp add: first Initialize_health del: Initialize.simps)
  from parse sizes caches start chain [of p] first [of routes] started health
  show ?thesis by simp
qed

text \<open>
  C8. When the limiter rejects a request, the response is the JSON rejection body with the
  time stamp and the message, and nothing behind the limiter runs: the result is the same
  whatever handler ends the chain, and the state of the process (metrics, cache, spans and
  log records) is as before the request.
\<close>

theorem rejection_response:
  assumes "\<not> metricsRouteMatches x" and "\<not> pprofServes x" and "\<not> limiterAllows x"
  shows "serve x (c, p) = Inr (None, JSON (ErrorResponse (rejectTime x) tooManyRequests) c, p)
       \<and> middlewareChain h x (c, p)
           = Inr (None, JSON (ErrorResponse (rejectTime x) tooManyRequests) c, p)
       \<and> respBody (JSON (ErrorResponse (rejectTime x) tooManyRequests) c)
           = Some (ErrorResponse (rejectTime x) tooManyRequests)"
  using assms
  by (simp add: serve_def middlewareChain_def pprofMiddleware_def limiterMiddleware_def
        LimitReached_def JSON_def)

theorem rejection_response_witness:
  "\<exists>p. startProcess ''2'' [(''GET'', ''/health'')] = Inr p
     \<and> serve \<lparr>metricsRouteMatches = False, pprofServes = False, limiterAllows = False,
              healthRouteMatches = True, generatedRequestId = ''rid-1'',
              generatedUserId = ''uid-1'',
              rejectTime = 7, healthTime = 8, elapsedMillis = 3, elapsedMicros = 3200\<rparr>
         (newCtx ''GET'' ''/health'' ''10.0.0.1'' Map.empty, p)
       = Inr (None,
              JSON (ErrorResponse 7 tooManyRequests)
                (newCtx ''GET'' ''/health'' ''10.0.0.1'' Map.empty),
              p)"
proof -
  from startProcess_health obtain p where start: "startProcess ''2'' [(''GET'', ''/health'')] = Inr p"
    by blast
  from rejection_response
    [of "\<lparr>metricsRouteMatches = False, pprofServes = False, limiterAllows = False,
          healthRouteMatches = True, generatedRequestId = ''rid-1'', generatedUserId = ''uid-1'',
          rejectTime = 7, healthTime = 8, elapsedMillis = 3, elapsedMicros = 3200\<rparr>"
        "newCtx ''GET'' ''/health'' ''10.0.0.1'' Map.empty" p]
  have "serve \<lparr>metricsRouteMatches = False, pprofServes = False, limiterAllows = False,
              healthRouteMatches = True, generatedRequestId = ''rid-1'',
              generatedUserId = ''uid-1'',
              rejectTime = 7, healthTime = 8, elapsedMillis = 3, elapsedMicros = 3200\<rparr>
         (newCtx ''GET'' ''/health'' ''10.0.0.1'' Map.empty, p)
       = Inr (None,
              JSON (ErrorResponse 7 tooManyRequests)
                (newCtx ''GET'' ''/health'' ''10.0.0.1'' Map.empty),
              p)"
    by simp
  with start show ?thesis by blast
qed

lemma routeStack_header:
  assumes "routeStack x s = Inr (e, c', p')" and "k \<noteq> ''Content-Type''"
  shows "respHeaders c' k = respHeaders (fst s) k"
  using assms
  by (cases s)
     (auto simp: routeStack_def healthHandler_def andThen_Inr JSON_def SendStatus_def Let_def
           split: if_splits)

lemma tagsMiddleware_header:
  assumes nxt: "\<And>s e c' p'. nxt x s = Inr (e, c', p') \<Longrightarrow> respHeaders c' k = respHeaders (fst s) k"
    and run: "tagsMiddleware nxt x s = Inr (e, c', p')"
  shows "respHeaders c' k = respHeaders (fst s) k"
  using run
  by (cases s) (auto simp: tagsMiddleware_def andThen_Inr Let_def dest!: nxt)

lemma loggingMiddleware_header:
  assumes nxt: "\<And>s e c' p'. nxt x s = Inr (e, c', p') \<Longrightarrow> respHeaders c' k = respHeaders (fst s) k"
    and run: "loggingMiddleware nxt x s = Inr (e, c', p')"
  shows "respHeaders c' k = respHeaders (fst s) k"
  using run
  by (cases s) (auto simp: loggingMiddleware_def andThen_Inr Let_def setLocal_def dest!: nxt)

lemma identityMiddleware_header:
  assumes nxt: "\<And>s e c' p'. nxt x s = Inr (e, c', p') \<Longrightarrow> respHeaders c' k = respHeaders (fst s) k"
    and run: "identityMiddleware nxt x s = Inr (e, c', p')"
  shows "respHeaders c' k = respHeaders (fst s) k"
  using run
  by (cases s) (auto simp: identityMiddleware_def andThen_Inr Let_def setLocal_def dest!: nxt)

lemma behind_requestid_header:
  assumes "identityMiddleware (loggingMiddleware (tagsMiddleware routeStack)) x s = Inr (e, c', p')"
    and "k \<noteq> ''Content-Type''"
  shows "respHeaders c' k = respHeaders (fst s) k"
  using assms(1)
proof (rule identityMiddleware_header [rotated])
  fix s1 e1 c1 p1
  assume "loggingMiddleware (tagsMiddleware routeStack) x s1 = Inr (e1, c1, p1)"
  then show "respHeaders c1 k = respHeaders (fst s1) k"
  proof (rule loggingMiddleware_header [rotated])
    fix s2 e2 c2 p2
    assume "tagsMiddleware routeStack x s2 = Inr (e2, c2, p2)"
    then show "respHeaders c2 k = respHeaders (fst s2) k"
      by (rule tagsMiddleware_header [rotated]) (rule routeStack_header [OF _ assms(2)])
  qed
qed

text \<open>
  C4, as stated: a request rejected by the limiter gets a response without a request-id
  header, because the limiter is registered in front of the request-id middleware.
\<close>

theorem request_id_header_counterexample:
  "responseHeader ''X-Request-ID''
     (firstRequest (startProcess ''2'' [(''GET'', ''/health'')])
        \<lparr>metricsRouteMatches = False, pprofServes = False, limiterAllows = False,
         healthRouteMatches = True, generatedRequestId = ''rid-1'', generatedUserId = ''uid-1'',
         rejectTime = 7, healthTime = 8, elapsedMillis = 3, elapsedMicros = 3200\<rparr>
        (newCtx ''GET'' ''/health'' ''10.0.0.1'' Map.empty))
   = Some None"
  by (simp add: firstRequest_def startProcess_health serve_def middlewareChain_def
        pprofMiddleware_def limiterMiddleware_def LimitReached_def JSON_def newCtx_def
        responseHeader_def)

text \<open>
  C4, amended. Every response to a request that reaches the request-id middleware (the route
  \<^verbatim>\<open>GET /metrics\<close> does not match, pprof does not serve the path, the limiter admits the
  request) carries the request-id header, and its value is the identifier the request
  brought in its own request-id header when that is present and not empty, and the generated
  identifier otherwise. A request that does not reach that middleware, because the limiter
  rejects it or because the route \<^verbatim>\<open>GET /metrics\<close> or pprof serves it, is answered with the
  request-id header as it was before the chain ran, which for every request as the server
  hands it over is no request-id header at all.
\<close>

theorem request_id_header:
  "(\<not> metricsRouteMatches x \<and> \<not> pprofServes x \<and> limiterAllows x
      \<and> serve x (c, p) = Inr (err, c', p') \<longrightarrow>
      respHeaders c' ''X-Request-ID'' =
        Some (case reqHeaders c ''X-Request-ID'' of
                None \<Rightarrow> generatedRequestId x
              | Some v \<Rightarrow> if v = [] then generatedRequestId x else v))
   \<and> (metricsRouteMatches x \<or> pprofServes x \<or> \<not> limiterAllows x \<longrightarrow>
        responseHeader ''X-Request-ID'' (serve x (c, p)) = Some (respHeaders c ''X-Request-ID'')
      \<and> responseHeader ''X-Request-ID'' (serve x (newCtx m path ip hdrs, p)) = Some None)"
proof -
  have admitted: "respHeaders c' ''X-Request-ID'' =
        Some (case reqHeaders c ''X-Request-ID'' of
                None \<Rightarrow> generatedRequestId x
              | Some v \<Rightarrow> if v = [] then generatedRequestId x else v)"
    if reach: "\<not> metricsRouteMatches x" "\<not> pprofServes x" "limiterAllows x"
      and run: "serve x (c, p) = Inr (err, c', p')"
  proof -
    let ?c0 = "setLocal ''parentSpan'' (LSpan (Path c)) (setLocal ''tracer'' LTracer c)"
    from reach run obtain e3 p3 where
      inner: "identityMiddleware (loggingMiddleware (tagsMiddleware routeStack)) x
                (setLocal ''requestid'' (LString (requestIdOf x ?c0))
                   (?c0\<lparr>respHeaders := (respHeaders ?c0)(''X-Request-ID'' \<mapsto> requestIdOf x ?c0)\<rparr>),
                 emit (SpanStart (Path c)) p) = Inr (e3, c', p3)"
      by (auto simp: serve_def middlewareChain_def pprofMiddleware_def limiterMiddleware_def
            tracerMiddleware_def requestidMiddleware_def andThen_Inr Let_def)
    have same: "requestIdOf x ?c0 =
        (case reqHeaders c ''X-Request-ID'' of
           None \<Rightarrow> generatedRequestId x
         | Some v \<Rightarrow> if v = [] then generatedRequestId x else v)"
      by (simp add: requestIdOf_def setLocal_def)
    from behind_requestid_header [OF inner, of "''X-Request-ID''"]
    have "respHeaders c' ''X-Request-ID'' = Some (requestIdOf x ?c0)"
      by (simp add: setLocal_def)
    then show ?thesis
      by (simp only: same)
  qed
  have bypassed: "responseHeader ''X-Request-ID'' (serve x (d, p)) = Some (respHeaders d ''X-Request-ID'')"
    if "metricsRouteMatches x \<or> pprofServes x \<or> \<not> limiterAllows x" for d
    using that
    by (auto simp: serve_def middlewareChain_def metricsRoute_def pprofMiddleware_def
          limiterMiddleware_def LimitReached_def JSON_def responseHeader_def)
  have fresh: "respHeaders (newCtx m path ip hdrs) ''X-Request-ID'' = None"
    by (simp add: newCtx_def)
  from admitted bypassed [of c] bypassed [of "newCtx m path ip hdrs"] fresh
  show ?thesis by simp
qed

theorem request_id_header_witness:
  "(\<exists>p. startProcess ''2'' [(''GET'', ''/health'')] = Inr p
      \<and> responseHeader ''X-Request-ID''
          (serve \<lparr>metricsRouteMatches = False, pprofServes = False, limiterAllows = True,
                  healthRouteMatches = True, generatedRequestId = ''rid-1'',
                  generatedUserId = ''uid-1'',
                  rejectTime = 7, healthTime = 8, elapsedMillis = 3, elapsedMicros = 3200\<rparr>
             (newCtx ''GET'' ''/health'' ''10.0.0.1'' [''X-Request-ID'' \<mapsto> ''abc-123''], p))
         = Some (Some ''abc-123'')
      \<and> responseHeader ''X-Request-ID''
          (serve \<lparr>metricsRouteMatches = False, pprofServes = False, limiterAllows = True,
                  healthRouteMatches = True, generatedRequestId = ''rid-1'',
                  generatedUserId = ''uid-1'',
                  rejectTime = 7, healthTime = 8, elapsedMillis = 3, elapsedMicros = 3200\<rparr>
             (newCtx ''GET'' ''/health'' ''10.0.0.1'' Map.empty, p))
         = Some (Some ''rid-1'')
      \<and> responseHeader ''X-Request-ID''
          (serve \<lparr>metricsRouteMatches = False, pprofServes = False, limiterAllows = False,
                  healthRouteMatches = True, generatedRequestId = ''rid-1'',
                  generatedUserId = ''uid-1'',
                  rejectTime = 7, healthTime = 8, elapsedMillis = 3, elapsedMicros = 3200\<rparr>
             (newCtx ''GET'' ''/health'' ''10.0.0.1'' [''X-Request-ID'' \<mapsto> ''abc-123''], p))
         = Some None
      \<and> responseHeader ''X-Request-ID''
          (serve \<lparr>metricsRouteMatches = True, pprofServes = False, limiterAllows = True,
                  healthRouteMatches = False, generatedRequestId = ''rid-1'',
                  generatedUserId = ''uid-1'',
                  rejectTime = 7, healthTime = 8, elapsedMillis = 3, elapsedMicros = 3200\<rparr>
             (newCtx ''GET'' ''/metrics'' ''10.0.0.1'' Map.empty, p))
         = Some None)"
proof -
  let ?admit = "\<lparr>metricsRouteMatches = False, pprofServes = False, limiterAllows = True,
                  healthRouteMatches = True, generatedRequestId = ''rid-1'',
                  generatedUserId = ''uid-1'',
                  rejectTime = 7, healthTime = 8, elapsedMillis = 3, elapsedMicros = 3200\<rparr>"
  let ?reject = "\<lparr>metricsRouteMatches = False, pprofServes = False, limiterAllows = False,
                  healthRouteMatches = True, generatedRequestId = ''rid-1'',
                  generatedUserId = ''uid-1'',
                  rejectTime = 7, healthTime = 8, elapsedMillis = 3, elapsedMicros = 3200\<rparr>"
  let ?metrics = "\<lparr>metricsRouteMatches = True, pprofServes = False, limiterAllows = True,
                  healthRouteMatches = False, generatedRequestId = ''rid-1'',
                  generatedUserId = ''uid-1'',
                  rejectTime = 7, healthTime = 8, elapsedMillis = 3, elapsedMicros = 3200\<rparr>"
  let ?sent = "newCtx ''GET'' ''/health'' ''10.0.0.1'' [''X-Request-ID'' \<mapsto> ''abc-123'']"
  let ?plain = "newCtx ''GET'' ''/health'' ''10.0.0.1'' Map.empty"
  let ?p = "\<lparr>userCache = Some \<lparr>sizeLRU = 2, evictList = []\<rparr>,
            metricPublisher =
              \<lparr>metricMap = [''http_request_count_GET_health'' \<mapsto> Counter 0,
                            ''http_request_duration_ms_GET_health''
                              \<mapsto> Histogram latencyBuckets []]\<rparr>,
            opsProcessed = 0,
            events = []\<rparr>"
  note run_defs = serve_def middlewareChain_def metricsRoute_def
        pprofMiddleware_def limiterMiddleware_def LimitReached_def tracerMiddleware_def
        requestidMiddleware_def requestIdOf_def identityMiddleware_def loggingMiddleware_def
        tagsMiddleware_def healthHandler_def routeStack_def GetTracer_def GetLogger_def
        localString_def spanLocal_def setLocal_def emit_def JSON_def SendStatus_def newCtx_def
        resolveUser_def Contains_def Get_def Add_def removeKey_def
        PublishCounter_def GetHistogram_def GetMetricName_filter Sprintf_s_s_def
        HttpRequestCountMetricName_def HttpRequestDurationMetricName_def
        HttpRequestDurationMicroMetricName_def inClass_def publishRequestMetrics_def
        Let_def FormatInt_200
  obtain e1 c1 p1 where run1: "serve ?admit (?sent, ?p) = Inr (e1, c1, p1)"
    by (simp add: run_defs)
  obtain e2 c2 p2 where run2: "serve ?admit (?plain, ?p) = Inr (e2, c2, p2)"
    by (simp add: run_defs)
  from request_id_header [where x = ?admit and c = ?sent and p = ?p and err = e1 and c' = c1
      and p' = p1, THEN conjunct1] run1
  have "respHeaders c1 ''X-Request-ID'' = Some ''abc-123''"
    by (simp add: newCtx_def)
  with run1 have first: "responseHeader ''X-Request-ID'' (serve ?admit (?sent, ?p))
      = Some (Some ''abc-123'')"
    by (simp only: responseHeader_def sum.case prod.case)
  from request_id_header [where x = ?admit and c = ?plain and p = ?p and err = e2 and c' = c2
      and p' = p2, THEN conjunct1] run2
  have "respHeaders c2 ''X-Request-ID'' = Some ''rid-1''"
    by (simp add: newCtx_def)
  with run2 have second: "responseHeader ''X-Request-ID'' (serve ?admit (?plain, ?p))
      = Some (Some ''rid-1'')"
    by (simp only: responseHeader_def sum.case prod.case)
  from request_id_header [where x = ?reject and c = ?sent and p = ?p and m = "''GET''"
      and path = "''/health''" and ip = "''10.0.0.1''"
      and hdrs = "[''X-Request-ID'' \<mapsto> ''abc-123'']", THEN conjunct2]
  have third: "responseHeader ''X-Request-ID'' (serve ?reject (?sent, ?p)) = Some None"
    by (simp add: newCtx_def)
  from request_id_header [where x = ?metrics and c = ?plain and p = ?p and m = "''GET''"
      and path = "''/metrics''" and ip = "''10.0.0.1''" and hdrs = Map.empty, THEN conjunct2]
  have fourth: "responseHeader ''X-Request-ID''
      (serve ?metrics (newCtx ''GET'' ''/metrics'' ''10.0.0.1'' Map.empty, ?p)) = Some None"
    by (simp add: newCtx_def)
  from startProcess_health first second third fourth show ?thesis
    by (intro exI [of _ ?p] conjI)
qed

end
